theory Spec2Isabelle
  imports Complex_Main "HOL-Library.Extended_Nat"
begin

section \<open>DeSIST: a shallow embedding of \<^verbatim>\<open>src/main.py\<close>\<close>

text \<open>
  The program is one Python module: a class \<^verbatim>\<open>Packet\<close>, a global dictionary
  \<^verbatim>\<open>STATS\<close> and a class \<^verbatim>\<open>IoTNode\<close> whose methods mutate the node they are called on
  and \<^verbatim>\<open>STATS\<close>.

  Conventions of the embedding.
  \<^item> Python floats are idealised as \<^typ>\<open>real\<close>: rounding is not modelled. Where the
    source relies on the IEEE values \<^verbatim>\<open>inf\<close> and \<^verbatim>\<open>nan\<close> (ranks and parent utilities),
    they are written out.
  \<^item> An \<^verbatim>\<open>IoTNode\<close> object is addressed by its id: the store \<open>nodes\<close> maps an id to
    the state of the node with that id. The dictionary \<^verbatim>\<open>self.neighbors\<close> is only ever
    filled by \<^verbatim>\<open>self.neighbors[other_node.id] = other_node\<close>, so it is kept as the list
    of its keys in insertion order, and \<^verbatim>\<open>self.neighbors[k]\<close> is node \<open>k\<close> of the store.
  \<^item> A rank is \<^verbatim>\<open>0\<close>, \<^verbatim>\<open>float('inf')\<close> or an advertised rank plus one: an \<^typ>\<open>enat\<close>.
  \<^item> \<^verbatim>\<open>random.random()\<close> reads the next element of a stream of draws held in the state.
  \<^item> The simpy environment is a library: \<^verbatim>\<open>env.now\<close> is the field \<open>now\<close>,
    \<^verbatim>\<open>env.process(g)\<close> appends the generator \<open>g\<close> to the list \<open>spawned\<close>, and
    \<^verbatim>\<open>self.action.interrupt(c)\<close> appends the cause \<open>c\<close> to the interrupts delivered to the
    node's process.
  \<^item> A \<^verbatim>\<open>Packet\<close> is a value: the packet a method forwards is a copy of the one it
    received, with the path extended.
  \<^item> The constructor \<^verbatim>\<open>IoTNode.__init__\<close> and the generator \<^verbatim>\<open>run\<close> are not functions of
    the embedding: a node of the store exists from the start, and each round of \<^verbatim>\<open>run\<close> is
    a call of \<open>broadcast_dio\<close>.
\<close>

subsection \<open>Data model\<close>

type_synonym node_id = nat

datatype payload = Payload string | DioData enat nat

datatype dest = Node node_id | BROADCAST

record packet =
  pkt_id :: string
  source_id :: node_id
  dest_id :: dest
  creation_time :: real
  pdata :: payload
  path :: "node_id list"
  current_hop_sender_id :: "node_id option"
  ptype :: string

record lia_entry =
  pfg_last_outcome :: "string option"
  pfg_coop_count :: nat
  pfg_defect_count :: nat
  psg_last_rank_advertised :: "enat option"
  psg_rank_stability_score :: real
  psg_dio_timestamps :: "real list"
  irg_reported_as_malicious_count :: nat
  link_quality_rssi :: real

record node =
  is_attacker_type :: "string option"
  radio_range :: real
  position :: "real \<times> real"
  neighbors :: "node_id list"
  energy :: real
  is_sink :: bool
  alive :: bool
  rpl_parent_id :: "node_id option"
  rpl_rank :: enat
  rpl_version_number :: nat
  rpl_dio_interval :: real
  rpl_last_dio_sent_time :: real
  lia_data :: "node_id \<rightharpoonup> lia_entry"
  action_interrupts :: "string list"
  packet_id_counter :: nat

text \<open>Keys of the per-node tallies: a node id, or one of the strings \<^verbatim>\<open>'Hold'\<close>, \<^verbatim>\<open>'None'\<close>.\<close>

datatype tally_key = IdKey node_id | StrKey string

text \<open>
  \<^verbatim>\<open>STATS\<close>. A \<^verbatim>\<open>defaultdict(int)\<close> is a total function (a key never written reads 0).
\<close>

record stats =
  packets_generated :: nat
  packets_received_dest :: nat
  packets_dropped_blackhole :: nat
  packets_dropped_selfish :: nat
  packets_dropped_other :: nat
  total_delay :: real
  nodes_energy :: "node_id \<rightharpoonup> real"
  rpl_parent_changes :: "node_id \<Rightarrow> nat"
  sdu_pfg_choices :: "node_id \<Rightarrow> tally_key \<Rightarrow> nat"
  sdu_psg_choices :: "node_id \<Rightarrow> tally_key \<Rightarrow> nat"
  lia_pfg_outcomes :: "node_id \<Rightarrow> node_id \<Rightarrow> char \<Rightarrow> nat"
  irg_reports_made :: "node_id \<Rightarrow> nat"
  control_packets_sent :: "node_id \<Rightarrow> string \<Rightarrow> nat"

text \<open>A generator handed to \<^verbatim>\<open>env.process\<close>: \<^verbatim>\<open>sender._send_message(target, packet)\<close>.\<close>

datatype process = SendMessage node_id node_id packet

record sim =
  nodes :: "node_id \<Rightarrow> node"
  STATS :: stats
  now :: real
  rng :: "nat \<Rightarrow> real"
  rng_pos :: nat
  spawned :: "process list"

datatype error = TypeError | IndexError | KeyError

subsection \<open>Constants\<close>

definition PFG_SENDER_PAYOFFS_Send_Cooperate :: real where
  "PFG_SENDER_PAYOFFS_Send_Cooperate = 4"

definition PFG_SENDER_PAYOFFS_Send_Defect :: real where
  "PFG_SENDER_PAYOFFS_Send_Defect = - 11"

definition PFG_SENDER_PAYOFFS_Hold :: real where
  "PFG_SENDER_PAYOFFS_Hold = - 0.1"

definition PSG_CHILD_WEIGHTS_rank :: real where
  "PSG_CHILD_WEIGHTS_rank = 0.5"

definition PSG_CHILD_WEIGHTS_stability :: real where
  "PSG_CHILD_WEIGHTS_stability = 0.3"

definition PSG_CHILD_WEIGHTS_link_quality :: real where
  "PSG_CHILD_WEIGHTS_link_quality = 0.2"

definition PSG_CHILD_WEIGHTS_change_penalty :: real where
  "PSG_CHILD_WEIGHTS_change_penalty = - 2"

definition E_TX_PKT :: real where "E_TX_PKT = 0.05"
definition E_RX_PKT :: real where "E_RX_PKT = 0.02"
definition E_TX_CTRL :: real where "E_TX_CTRL = 0.01"
definition E_RX_CTRL :: real where "E_RX_CTRL = 0.005"
definition E_SDU_COMPUTE :: real where "E_SDU_COMPUTE = 0.001"
definition E_LIA_UPDATE :: real where "E_LIA_UPDATE = 0.0005"
definition E_IDLE_LISTEN :: real where "E_IDLE_LISTEN = 0.0001"

subsection \<open>Helpers for Python's built-ins\<close>

text \<open>In-place update of one node object.\<close>

definition upd_node :: "sim \<Rightarrow> node_id \<Rightarrow> (node \<Rightarrow> node) \<Rightarrow> sim" where
  "upd_node s i f = s\<lparr>nodes := (nodes s)(i := f (nodes s i))\<rparr>"

text \<open>\<^verbatim>\<open>random.random()\<close> and \<^verbatim>\<open>random.uniform(a, b)\<close>, which is \<^verbatim>\<open>a + (b - a) * random()\<close>.\<close>

definition random_random :: "sim \<Rightarrow> real \<times> sim" where
  "random_random s = (rng s (rng_pos s), s\<lparr>rng_pos := Suc (rng_pos s)\<rparr>)"

definition random_uniform :: "sim \<Rightarrow> real \<Rightarrow> real \<Rightarrow> real \<times> sim" where
  "random_uniform s a b = (case random_random s of (u, s1) \<Rightarrow> (a + (b - a) * u, s1))"

text \<open>\<^verbatim>\<open>d[k] += 1\<close> on a \<^verbatim>\<open>defaultdict(int)\<close>, and on nested ones.\<close>

definition incr :: "('a \<Rightarrow> nat) \<Rightarrow> 'a \<Rightarrow> 'a \<Rightarrow> nat" where
  "incr d k = d(k := d k + 1)"

definition incr2 :: "('a \<Rightarrow> 'b \<Rightarrow> nat) \<Rightarrow> 'a \<Rightarrow> 'b \<Rightarrow> 'a \<Rightarrow> 'b \<Rightarrow> nat" where
  "incr2 d j k = d(j := incr (d j) k)"

definition incr3 ::
  "('a \<Rightarrow> 'b \<Rightarrow> 'c \<Rightarrow> nat) \<Rightarrow> 'a \<Rightarrow> 'b \<Rightarrow> 'c \<Rightarrow> 'a \<Rightarrow> 'b \<Rightarrow> 'c \<Rightarrow> nat" where
  "incr3 d h j k = d(h := incr2 (d h) j k)"

text \<open>Truthiness of an id-or-\<^verbatim>\<open>None\<close>: \<^verbatim>\<open>None\<close> and the integer \<^verbatim>\<open>0\<close> are falsy.\<close>

definition truthy :: "node_id option \<Rightarrow> bool" where
  "truthy v = (case v of None \<Rightarrow> False | Some k \<Rightarrow> k \<noteq> 0)"

text \<open>\<^verbatim>\<open>deque(maxlen=5).append(x)\<close>: a full deque discards its leftmost element.\<close>

definition deque_append :: "real list \<Rightarrow> real \<Rightarrow> real list" where
  "deque_append xs x = (if length xs \<ge> 5 then tl xs @ [x] else xs @ [x])"

text \<open>\<^verbatim>\<open>np.clip(x, lo, hi)\<close>.\<close>

definition np_clip :: "real \<Rightarrow> real \<Rightarrow> real \<Rightarrow> real" where
  "np_clip x lo hi = min (max x lo) hi"

text \<open>
  \<^verbatim>\<open>abs(rank - last) > 2\<close> on ranks. \<^verbatim>\<open>inf - inf\<close> is \<^verbatim>\<open>nan\<close>, and every comparison with
  \<^verbatim>\<open>nan\<close> is false; \<^verbatim>\<open>abs(inf - n)\<close> and \<^verbatim>\<open>abs(n - inf)\<close> are \<^verbatim>\<open>inf\<close>.
\<close>

fun abs_rank_diff_gt_2 :: "enat \<Rightarrow> enat \<Rightarrow> bool" where
  "abs_rank_diff_gt_2 (enat a) (enat b) = (\<bar>int a - int b\<bar> > 2)"
| "abs_rank_diff_gt_2 \<infinity> \<infinity> = False"
| "abs_rank_diff_gt_2 \<infinity> (enat b) = True"
| "abs_rank_diff_gt_2 (enat a) \<infinity> = True"

subsection \<open>Energy model\<close>

text \<open>\<^verbatim>\<open>cost_map.get(cost_type, 0)\<close>\<close>

definition cost_map_get :: "string \<Rightarrow> real" where
  "cost_map_get cost_type =
     (if cost_type = ''tx_pkt'' then E_TX_PKT
      else if cost_type = ''rx_pkt'' then E_RX_PKT
      else if cost_type = ''tx_ctrl'' then E_TX_CTRL
      else if cost_type = ''rx_ctrl'' then E_RX_CTRL
      else if cost_type = ''sdu'' then E_SDU_COMPUTE
      else if cost_type = ''lia'' then E_LIA_UPDATE
      else if cost_type = ''idle'' then E_IDLE_LISTEN
      else 0)"

definition consume_energy :: "sim \<Rightarrow> node_id \<Rightarrow> string \<Rightarrow> real option \<Rightarrow> sim" where
  "consume_energy s i cost_type amount =
     (if \<not> alive (nodes s i) then s
      else
        let actual_cost = (case amount of Some a \<Rightarrow> a | None \<Rightarrow> cost_map_get cost_type);
            e = energy (nodes s i) - actual_cost;
            s1 = upd_node s i (\<lambda>n. n\<lparr>energy := e\<rparr>);
            s2 = s1\<lparr>STATS := (STATS s1)\<lparr>nodes_energy := (nodes_energy (STATS s1))(i \<mapsto> e)\<rparr>\<rparr>
        in if e \<le> 0
           then upd_node s2 i (\<lambda>n. n\<lparr>energy := 0, alive := False,
                  action_interrupts := action_interrupts n @ [''energy_depleted'']\<rparr>)
           else s2)"

subsection \<open>Learned Interaction Archive\<close>

text \<open>The default factory of \<^verbatim>\<open>self.lia_data\<close>; \<open>q\<close> is the drawn link quality.\<close>

definition lia_default :: "real \<Rightarrow> lia_entry" where
  "lia_default q =
     \<lparr>pfg_last_outcome = None, pfg_coop_count = 0, pfg_defect_count = 0,
      psg_last_rank_advertised = None, psg_rank_stability_score = 1.0,
      psg_dio_timestamps = [], irg_reported_as_malicious_count = 0,
      link_quality_rssi = q\<rparr>"

definition lia_set :: "sim \<Rightarrow> node_id \<Rightarrow> node_id \<Rightarrow> lia_entry \<Rightarrow> sim" where
  "lia_set s i k e = upd_node s i (\<lambda>n. n\<lparr>lia_data := (lia_data n)(k \<mapsto> e)\<rparr>)"

text \<open>\<^verbatim>\<open>self.lia_data[k]\<close>: a missing key is created from the default factory.\<close>

definition lia_get :: "sim \<Rightarrow> node_id \<Rightarrow> node_id \<Rightarrow> lia_entry \<times> sim" where
  "lia_get s i k =
     (case lia_data (nodes s i) k of
        Some e \<Rightarrow> (e, s)
      | None \<Rightarrow> (case random_uniform s (- 80) (- 40) of
                  (q, s1) \<Rightarrow> (lia_default q, lia_set s1 i k (lia_default q))))"

definition lia_update_psg_from_dio :: "sim \<Rightarrow> node_id \<Rightarrow> node_id \<Rightarrow> enat \<Rightarrow> nat \<Rightarrow> sim" where
  "lia_update_psg_from_dio s i sender_id rank version =
     (let s1 = consume_energy s i ''lia'' None
      in case lia_get s1 i sender_id of (entry, s2) \<Rightarrow>
        let e1 = entry\<lparr>psg_dio_timestamps := deque_append (psg_dio_timestamps entry) (now s2)\<rparr>;
            e2 = (case psg_last_rank_advertised e1 of
                    None \<Rightarrow> e1
                  | Some prev \<Rightarrow>
                      if abs_rank_diff_gt_2 rank prev
                      then e1\<lparr>psg_rank_stability_score := psg_rank_stability_score e1 * 0.8\<rparr>
                      else e1\<lparr>psg_rank_stability_score :=
                                min 1.0 (psg_rank_stability_score e1 * 1.05 + 0.05)\<rparr>);
            e3 = e2\<lparr>psg_last_rank_advertised := Some rank\<rparr>
        in lia_set s2 i sender_id e3)"

definition lia_get_pfg_p_cooperate :: "sim \<Rightarrow> node_id \<Rightarrow> node_id \<Rightarrow> real \<times> sim" where
  "lia_get_pfg_p_cooperate s i neighbor_id =
     (let s1 = consume_energy s i ''lia'' None
      in case lia_get s1 i neighbor_id of (entry, s2) \<Rightarrow>
        let total = pfg_coop_count entry + pfg_defect_count entry
        in if total = 0 then (0.5, s2)
           else
             let base_p_coop = real (pfg_coop_count entry) / real total;
                 base_p_coop' =
                   (if pfg_last_outcome entry = Some ''Defect''
                    then max 0.01 (base_p_coop * 0.3)
                    else if pfg_last_outcome entry = Some ''Cooperate''
                    then min 0.99 (base_p_coop * 1.1 + 0.2)
                    else base_p_coop)
             in (np_clip base_p_coop' 0.01 0.99, s2))"

definition lia_update_pfg :: "sim \<Rightarrow> node_id \<Rightarrow> node_id \<Rightarrow> string \<Rightarrow> error option \<times> sim" where
  "lia_update_pfg s i neighbor_id outcome =
     (let s1 = consume_energy s i ''lia'' None
      in case lia_get s1 i neighbor_id of (entry, s2) \<Rightarrow>
        let e1 = entry\<lparr>pfg_last_outcome := Some outcome\<rparr>;
            e2 = (if outcome = ''Cooperate''
                  then e1\<lparr>pfg_coop_count := pfg_coop_count e1 + 1\<rparr>
                  else e1\<lparr>pfg_defect_count := pfg_defect_count e1 + 1\<rparr>);
            s3 = lia_set s2 i neighbor_id e2
        in (case outcome of
              [] \<Rightarrow> (Some IndexError, s3)
            | c # _ \<Rightarrow>
                if c = CHR ''C'' \<or> c = CHR ''D''
                then (None, s3\<lparr>STATS := (STATS s3)\<lparr>lia_pfg_outcomes :=
                        incr3 (lia_pfg_outcomes (STATS s3)) i neighbor_id c\<rparr>\<rparr>)
                else (Some KeyError, s3)))"

text \<open>
  A parent utility is a float that may be \<^verbatim>\<open>-inf\<close>: the initial maximum is
  \<^verbatim>\<open>-float('inf')\<close>, and the score of a candidate of rank \<^verbatim>\<open>inf\<close> is
  \<^verbatim>\<open>0.5 * (-inf)\<close> plus finite terms.
\<close>

datatype utility = NegInf | Fin real

fun utility_add :: "utility \<Rightarrow> real \<Rightarrow> utility" where
  "utility_add NegInf c = NegInf"
| "utility_add (Fin u) c = Fin (u + c)"

fun utility_gt :: "utility \<Rightarrow> utility \<Rightarrow> bool" where
  "utility_gt NegInf _ = False"
| "utility_gt (Fin u) NegInf = True"
| "utility_gt (Fin u) (Fin v) = (u > v)"

definition lia_get_psg_parent_score :: "sim \<Rightarrow> node_id \<Rightarrow> node_id \<Rightarrow> enat \<Rightarrow> utility \<times> sim" where
  "lia_get_psg_parent_score s i candidate_id candidate_rank =
     (let s1 = consume_energy s i ''lia'' None
      in case lia_get s1 i candidate_id of (entry, s2) \<Rightarrow>
        let ts = psg_dio_timestamps entry;
            freq_penalty =
              (if length ts \<ge> 3 \<and> ts ! (length ts - 1) - ts ! (length ts - 3) < 10
               then - 0.5 else 0);
            score =
              (case candidate_rank of
                 enat r \<Rightarrow>
                   Fin (PSG_CHILD_WEIGHTS_rank * (- real r)
                        + PSG_CHILD_WEIGHTS_stability * psg_rank_stability_score entry
                        + PSG_CHILD_WEIGHTS_link_quality * (link_quality_rssi entry / (- 40.0))
                        + freq_penalty)
               | \<infinity> \<Rightarrow> NegInf)
        in (score, s2))"

subsection \<open>SDU decision methods\<close>

text \<open>The \<^verbatim>\<open>for fw_id in candidate_fw_ids\<close> loop, with its three loop variables.\<close>

fun pfg_loop ::
  "sim \<Rightarrow> node_id \<Rightarrow> node_id list \<Rightarrow> node_id option \<Rightarrow> real \<Rightarrow> string
     \<Rightarrow> (node_id option \<times> real \<times> string) \<times> sim" where
  "pfg_loop s i [] best_fw_id max_eu action_taken = ((best_fw_id, max_eu, action_taken), s)"
| "pfg_loop s i (fw_id # rest) best_fw_id max_eu action_taken =
     (case lia_get_pfg_p_cooperate s i fw_id of (p_coop, s1) \<Rightarrow>
        let eu_send = p_coop * PFG_SENDER_PAYOFFS_Send_Cooperate
                      + (1 - p_coop) * PFG_SENDER_PAYOFFS_Send_Defect
        in if eu_send > max_eu
           then pfg_loop s1 i rest (Some fw_id) eu_send ''Send''
           else pfg_loop s1 i rest best_fw_id max_eu action_taken)"

text \<open>\<^verbatim>\<open>best_fw_id if best_fw_id else 'Hold'\<close>, and the same with \<^verbatim>\<open>'None'\<close>.\<close>

definition id_or :: "node_id option \<Rightarrow> string \<Rightarrow> tally_key" where
  "id_or v d = (if truthy v then (case v of Some k \<Rightarrow> IdKey k | None \<Rightarrow> StrKey d) else StrKey d)"

definition sdu_pfg_select_forwarder ::
  "sim \<Rightarrow> node_id \<Rightarrow> packet \<Rightarrow> node_id list \<Rightarrow> (node_id option \<times> string) \<times> sim" where
  "sdu_pfg_select_forwarder s i pkt candidate_fw_ids =
     (let s1 = consume_energy s i ''sdu'' None
      in if candidate_fw_ids = [] then ((None, ''Hold''), s1)
         else
           case pfg_loop s1 i candidate_fw_ids None PFG_SENDER_PAYOFFS_Hold ''Hold'' of
             ((best_fw_id, max_eu, action_taken), s2) \<Rightarrow>
               let k = id_or best_fw_id ''Hold'';
                   s3 = s2\<lparr>STATS := (STATS s2)\<lparr>sdu_pfg_choices :=
                          incr2 (sdu_pfg_choices (STATS s2)) i k\<rparr>\<rparr>
               in ((best_fw_id, action_taken), s3))"

text \<open>The \<^verbatim>\<open>for p_id, p_rank, p_version in potential_parents_info\<close> loop.\<close>

fun psg_loop ::
  "sim \<Rightarrow> node_id \<Rightarrow> (node_id \<times> enat \<times> nat) list \<Rightarrow> node_id option \<Rightarrow> utility
     \<Rightarrow> (node_id option \<times> utility) \<times> sim" where
  "psg_loop s i [] best_parent_id max_parent_utility = ((best_parent_id, max_parent_utility), s)"
| "psg_loop s i ((p_id, p_rank, p_version) # rest) best_parent_id max_parent_utility =
     (if p_rank \<ge> rpl_rank (nodes s i)
      then psg_loop s i rest best_parent_id max_parent_utility
      else
        case lia_get_psg_parent_score s i p_id p_rank of (u0, s1) \<Rightarrow>
          let utility = (if Some p_id \<noteq> rpl_parent_id (nodes s1 i)
                         then utility_add u0 PSG_CHILD_WEIGHTS_change_penalty else u0)
          in if utility_gt utility max_parent_utility
             then psg_loop s1 i rest (Some p_id) utility
             else psg_loop s1 i rest best_parent_id max_parent_utility)"

definition sdu_psg_select_parent ::
  "sim \<Rightarrow> node_id \<Rightarrow> (node_id \<times> enat \<times> nat) list \<Rightarrow> node_id option \<times> sim" where
  "sdu_psg_select_parent s i potential_parents_info =
     (let s1 = consume_energy s i ''sdu'' None
      in if potential_parents_info = [] then (None, s1)
         else
           case (case rpl_parent_id (nodes s1 i) of
                   None \<Rightarrow> ((None, NegInf), s1)
                 | Some p \<Rightarrow>
                     if p \<in> set (neighbors (nodes s1 i))
                     then (case lia_get_psg_parent_score s1 i p (rpl_rank (nodes s1 p)) of
                             (u, s') \<Rightarrow> ((Some p, u), s'))
                     else ((None, NegInf), s1)) of
             ((best0, max0), s2) \<Rightarrow>
               case psg_loop s2 i potential_parents_info best0 max0 of
                 ((best_parent_id, max_parent_utility), s3) \<Rightarrow>
                   let s4 = (if best_parent_id \<noteq> rpl_parent_id (nodes s3 i) \<and> best_parent_id \<noteq> None
                             then s3\<lparr>STATS := (STATS s3)\<lparr>rpl_parent_changes :=
                                    incr (rpl_parent_changes (STATS s3)) i\<rparr>\<rparr>
                             else s3);
                       k = id_or best_parent_id ''None'';
                       s5 = s4\<lparr>STATS := (STATS s4)\<lparr>sdu_psg_choices :=
                              incr2 (sdu_psg_choices (STATS s4)) i k\<rparr>\<rparr>
                   in (best_parent_id, s5))"

definition sdu_irg_decide_report :: "sim \<Rightarrow> node_id \<Rightarrow> node_id \<Rightarrow> string \<Rightarrow> bool \<times> sim" where
  "sdu_irg_decide_report s i observed_node_id suspected_behavior_type =
     (let s1 = consume_energy s i ''sdu'' None
      in case lia_get s1 i observed_node_id of (entry, s2) \<Rightarrow>
        if pfg_defect_count entry \<ge> 3 \<and> pfg_coop_count entry < pfg_defect_count entry
        then (case random_random s2 of (u, s3) \<Rightarrow>
                if u < 0.8
                then (True, s3\<lparr>STATS := (STATS s3)\<lparr>irg_reports_made :=
                        incr (irg_reports_made (STATS s3)) i\<rparr>\<rparr>)
                else (False, s3))
        else (False, s2))"

subsection \<open>RPL and data-plane handlers\<close>

definition handle_dio :: "sim \<Rightarrow> node_id \<Rightarrow> packet \<Rightarrow> node_id \<Rightarrow> error option \<times> sim" where
  "handle_dio s i dio_packet sender_id =
     (case pdata dio_packet of
        Payload _ \<Rightarrow> (Some TypeError, s)
      | DioData sender_rank sender_version \<Rightarrow>
          let s1 = lia_update_psg_from_dio s i sender_id sender_rank sender_version
          in if is_attacker_type (nodes s1 i) = Some ''rpl_rank'' then (None, s1)
             else
               case sdu_psg_select_parent s1 i [(sender_id, sender_rank, sender_version)] of
                 (new_parent_id, s2) \<Rightarrow>
                   if truthy new_parent_id \<and> new_parent_id = Some sender_id
                   then
                     let old_parent = rpl_parent_id (nodes s2 i);
                         s3 = upd_node s2 i (\<lambda>n. n\<lparr>rpl_parent_id := new_parent_id,
                                rpl_rank := sender_rank + 1\<rparr>)
                     in if old_parent \<noteq> new_parent_id
                        then (None, s3\<lparr>STATS := (STATS s3)\<lparr>rpl_parent_changes :=
                                incr (rpl_parent_changes (STATS s3)) i\<rparr>\<rparr>)
                        else (None, s3)
                   else (None, s2))"

text \<open>The local \<^verbatim>\<open>candidate_fw_ids = list(self.neighbors.keys())\<close> of \<^verbatim>\<open>handle_data_packet\<close>.\<close>

definition candidate_fw_ids :: "sim \<Rightarrow> node_id \<Rightarrow> node_id list" where
  "candidate_fw_ids s i = neighbors (nodes s i)"

definition handle_data_packet :: "sim \<Rightarrow> node_id \<Rightarrow> packet \<Rightarrow> node_id \<Rightarrow> bool \<times> sim" where
  "handle_data_packet s i pkt sender_id =
     (if Node i = dest_id pkt
      then (True, s\<lparr>STATS := (STATS s)\<lparr>
              packets_received_dest := packets_received_dest (STATS s) + 1,
              total_delay := total_delay (STATS s) + (now s - creation_time pkt)\<rparr>\<rparr>)
      else
        case sdu_pfg_select_forwarder s i pkt (candidate_fw_ids s i) of
          ((next_hop, action), s1) \<Rightarrow>
            (case next_hop of
               Some nh \<Rightarrow>
                 if action = ''Send''
                 then (True, s1\<lparr>spawned := spawned s1 @
                         [SendMessage i nh (pkt\<lparr>path := path pkt @ [i]\<rparr>)]\<rparr>)
                 else (False, s1\<lparr>STATS := (STATS s1)\<lparr>packets_dropped_selfish :=
                         packets_dropped_selfish (STATS s1) + 1\<rparr>\<rparr>)
             | None \<Rightarrow>
                 (False, s1\<lparr>STATS := (STATS s1)\<lparr>packets_dropped_selfish :=
                    packets_dropped_selfish (STATS s1) + 1\<rparr>\<rparr>)))"

definition handle_ack :: "sim \<Rightarrow> node_id \<Rightarrow> packet \<Rightarrow> node_id \<Rightarrow> sim" where
  "handle_ack s i pkt sender_id = s"

definition handle_report :: "sim \<Rightarrow> node_id \<Rightarrow> packet \<Rightarrow> node_id \<Rightarrow> sim" where
  "handle_report s i pkt sender_id = s"

subsection \<open>Communication methods\<close>

text \<open>What a call of \<^verbatim>\<open>_receive_message\<close> does: it raises, or returns \<^verbatim>\<open>None\<close> or a bool.\<close>

datatype outcome = Raised error | Returned "bool option"

definition receive_message :: "sim \<Rightarrow> node_id \<Rightarrow> packet \<Rightarrow> node_id \<Rightarrow> outcome \<times> sim" where
  "receive_message s i pkt sender_id =
     (if \<not> alive (nodes s i) then (Returned (Some False), s)
      else
        let s1 = consume_energy s i (if ptype pkt \<noteq> ''DATA'' then ''rx_ctrl'' else ''rx_pkt'') None
        in if ptype pkt = ''DIO''
           then (case handle_dio s1 i pkt sender_id of
                   (Some e, s2) \<Rightarrow> (Raised e, s2)
                 | (None, s2) \<Rightarrow> (Returned None, s2))
           else if ptype pkt = ''DATA''
           then (case handle_data_packet s1 i pkt sender_id of
                   (b, s2) \<Rightarrow> (Returned (Some b), s2))
           else if ptype pkt = ''ACK'' then (Returned None, handle_ack s1 i pkt sender_id)
           else if ptype pkt = ''REPORT'' then (Returned None, handle_report s1 i pkt sender_id)
           else (Returned (Some False), s1))"

text \<open>
  \<^verbatim>\<open>_send_message\<close> is a generator with one \<^verbatim>\<open>yield\<close>. \<open>send_message_start\<close> is the code
  up to the \<^verbatim>\<open>yield self.env.timeout(delay)\<close> and returns the delay;
  \<open>send_message_resume\<close> is the code after it, run when the timeout has fired. It
  returns \<open>None\<close> for a lost message, and otherwise what the call
  \<^verbatim>\<open>target_node_obj._receive_message(packet, self.id)\<close> did.
\<close>

definition send_message_start :: "sim \<Rightarrow> node_id \<Rightarrow> node_id \<Rightarrow> packet \<Rightarrow> real \<times> sim" where
  "send_message_start s i target pkt =
     (let s1 = consume_energy s i (if ptype pkt \<noteq> ''DATA'' then ''tx_ctrl'' else ''tx_pkt'') None;
          s2 = s1\<lparr>STATS := (STATS s1)\<lparr>control_packets_sent :=
                 incr2 (control_packets_sent (STATS s1)) i (ptype pkt)\<rparr>\<rparr>;
          dist = sqrt ((fst (position (nodes s2 i)) - fst (position (nodes s2 target)))\<^sup>2
                       + (snd (position (nodes s2 i)) - snd (position (nodes s2 target)))\<^sup>2)
      in case random_uniform s2 0.01 0.05 of (u, s3) \<Rightarrow> (u * dist / 10, s3))"

definition send_message_resume ::
  "sim \<Rightarrow> node_id \<Rightarrow> node_id \<Rightarrow> packet \<Rightarrow> outcome option \<times> sim" where
  "send_message_resume s i target pkt =
     (case random_random s of (u, s1) \<Rightarrow>
        if u < 0.02 then (None, s1)
        else (case receive_message s1 target pkt i of (r, s2) \<Rightarrow> (Some r, s2)))"

text \<open>\<^verbatim>\<open>str(n)\<close> for a non-negative integer, and \<^verbatim>\<open>int(x)\<close>, which truncates towards zero.\<close>

fun str_nat :: "nat \<Rightarrow> string" where
  "str_nat n = (if n < 10 then [''0123456789'' ! n]
                else str_nat (n div 10) @ [''0123456789'' ! (n mod 10)])"

definition str_int :: "int \<Rightarrow> string" where
  "str_int k = (if k < 0 then CHR ''-'' # str_nat (nat (- k)) else str_nat (nat k))"

definition py_int :: "real \<Rightarrow> int" where
  "py_int x = (if x \<ge> 0 then \<lfloor>x\<rfloor> else \<lceil>x\<rceil>)"

text \<open>The constructor of \<^verbatim>\<open>Packet\<close>.\<close>

definition Packet ::
  "string \<Rightarrow> node_id \<Rightarrow> dest \<Rightarrow> real \<Rightarrow> payload \<Rightarrow> string \<Rightarrow> packet" where
  "Packet packet_id src dst t d p_type =
     \<lparr>pkt_id = packet_id, source_id = src, dest_id = dst, creation_time = t, pdata = d,
      path = [src], current_hop_sender_id = None, ptype = p_type\<rparr>"

definition broadcast_dio :: "sim \<Rightarrow> node_id \<Rightarrow> sim" where
  "broadcast_dio s i =
     (if \<not> alive (nodes s i) then s
      else
        let s1 = upd_node s i (\<lambda>n. n\<lparr>rpl_last_dio_sent_time := now s\<rparr>);
            dio_packet = Packet (str_nat i @ ''-dio-'' @ str_int (py_int (now s1))) i BROADCAST
                           (now s1)
                           (DioData (rpl_rank (nodes s1 i)) (rpl_version_number (nodes s1 i)))
                           ''DIO''
        in s1\<lparr>spawned := spawned s1 @
               map (\<lambda>k. SendMessage i k dio_packet)
                 (filter (\<lambda>k. alive (nodes s1 k)) (neighbors (nodes s1 i)))\<rparr>)"

subsection \<open>Topology\<close>

text \<open>
  \<^verbatim>\<open>self.neighbors[k] = obj\<close> on the list of keys: a new key goes to the end, a key already
  present keeps its place.
\<close>

definition dict_set_key :: "node_id list \<Rightarrow> node_id \<Rightarrow> node_id list" where
  "dict_set_key ks k = (if k \<in> set ks then ks else ks @ [k])"

text \<open>\<^verbatim>\<open>discover_neighbors\<close>: the loop over \<^verbatim>\<open>all_nodes\<close>, given as the list of their ids.\<close>

fun discover_neighbors :: "sim \<Rightarrow> node_id \<Rightarrow> node_id list \<Rightarrow> sim" where
  "discover_neighbors s i [] = s"
| "discover_neighbors s i (other # rest) =
     (if i = other then discover_neighbors s i rest
      else
        let dist = sqrt ((fst (position (nodes s i)) - fst (position (nodes s other)))\<^sup>2
                         + (snd (position (nodes s i)) - snd (position (nodes s other)))\<^sup>2)
        in if dist \<le> radio_range (nodes s i)
           then discover_neighbors
                  (snd (lia_get (upd_node s i (\<lambda>n. n\<lparr>neighbors := dict_set_key (neighbors n) other\<rparr>))
                     i other)) i rest
           else discover_neighbors s i rest)"

subsection \<open>Runs\<close>

text \<open>
  One step of a run: the clock advances, or one method of \<^verbatim>\<open>IoTNode\<close> is called on some
  node with some arguments. No call site of the source passes \<^verbatim>\<open>amount\<close> to
  \<^verbatim>\<open>consume_energy\<close>.
\<close>

inductive step :: "sim \<Rightarrow> sim \<Rightarrow> bool" where
  tick: "now s \<le> t \<Longrightarrow> step s (s\<lparr>now := t\<rparr>)"
| call_consume_energy: "step s (consume_energy s i cost_type None)"
| call_lia_update_pfg: "step s (snd (lia_update_pfg s i k outcome))"
| call_lia_update_psg_from_dio: "step s (lia_update_psg_from_dio s i k rank version)"
| call_lia_get_pfg_p_cooperate: "step s (snd (lia_get_pfg_p_cooperate s i k))"
| call_lia_get_psg_parent_score: "step s (snd (lia_get_psg_parent_score s i k rank))"
| call_sdu_pfg_select_forwarder: "step s (snd (sdu_pfg_select_forwarder s i pkt cands))"
| call_sdu_psg_select_parent: "step s (snd (sdu_psg_select_parent s i infos))"
| call_sdu_irg_decide_report: "step s (snd (sdu_irg_decide_report s i k b))"
| call_send_message_start: "step s (snd (send_message_start s i k pkt))"
| call_send_message_resume: "step s (snd (send_message_resume s i k pkt))"
| call_receive_message: "step s (snd (receive_message s i pkt k))"
| call_broadcast_dio: "step s (broadcast_dio s i)"
| call_handle_dio: "step s (snd (handle_dio s i pkt k))"
| call_handle_data_packet: "step s (snd (handle_data_packet s i pkt k))"
| call_handle_ack: "step s (handle_ack s i pkt k)"
| call_handle_report: "step s (handle_report s i pkt k)"
| call_discover_neighbors: "step s (discover_neighbors s i all_nodes)"

definition run :: "sim \<Rightarrow> sim \<Rightarrow> bool" where
  "run = step\<^sup>*\<^sup>*"

subsection \<open>Notions used in the statements\<close>

text \<open>The local \<^verbatim>\<open>eu_send\<close> of \<^verbatim>\<open>sdu_pfg_select_forwarder\<close> for one candidate.\<close>

definition eu_send :: "sim \<Rightarrow> node_id \<Rightarrow> node_id \<Rightarrow> real" where
  "eu_send s i fw_id =
     (let p_coop = fst (lia_get_pfg_p_cooperate s i fw_id)
      in p_coop * PFG_SENDER_PAYOFFS_Send_Cooperate
         + (1 - p_coop) * PFG_SENDER_PAYOFFS_Send_Defect)"

text \<open>The entry \<^verbatim>\<open>self.lia_data[k]\<close> as a read finds it, without the side effect.\<close>

definition lia_entry_of :: "sim \<Rightarrow> node_id \<Rightarrow> node_id \<Rightarrow> lia_entry" where
  "lia_entry_of s i k = fst (lia_get s i k)"

text \<open>What a forwarding decision reads of an archive entry; a missing entry reads as the default.\<close>

definition pfg_view :: "node \<Rightarrow> node_id \<Rightarrow> string option \<times> nat \<times> nat" where
  "pfg_view n k =
     (case lia_data n k of
        None \<Rightarrow> (None, 0, 0)
      | Some e \<Rightarrow> (pfg_last_outcome e, pfg_coop_count e, pfg_defect_count e))"

text \<open>The loop of \<open>pfg_loop\<close> over given utilities, without the state.\<close>

fun pfg_pick ::
  "(node_id \<Rightarrow> real) \<Rightarrow> node_id list \<Rightarrow> node_id option \<Rightarrow> real \<Rightarrow> string
     \<Rightarrow> node_id option \<times> real \<times> string" where
  "pfg_pick eu [] best mx act = (best, mx, act)"
| "pfg_pick eu (c # cs) best mx act =
     (if eu c > mx then pfg_pick eu cs (Some c) (eu c) ''Send'' else pfg_pick eu cs best mx act)"

text \<open>
  Two states that differ at most in energy, liveness, interrupts and archive of the nodes,
  in the energy snapshots of the statistics, and in the position of the random stream.
\<close>

definition quiet :: "sim \<Rightarrow> sim \<Rightarrow> bool" where
  "quiet s s' \<longleftrightarrow>
     now s' = now s \<and> rng s' = rng s \<and> spawned s' = spawned s \<and>
     packets_generated (STATS s') = packets_generated (STATS s) \<and>
     packets_received_dest (STATS s') = packets_received_dest (STATS s) \<and>
     packets_dropped_blackhole (STATS s') = packets_dropped_blackhole (STATS s) \<and>
     packets_dropped_selfish (STATS s') = packets_dropped_selfish (STATS s) \<and>
     packets_dropped_other (STATS s') = packets_dropped_other (STATS s) \<and>
     total_delay (STATS s') = total_delay (STATS s) \<and>
     rpl_parent_changes (STATS s') = rpl_parent_changes (STATS s) \<and>
     sdu_pfg_choices (STATS s') = sdu_pfg_choices (STATS s) \<and>
     sdu_psg_choices (STATS s') = sdu_psg_choices (STATS s) \<and>
     lia_pfg_outcomes (STATS s') = lia_pfg_outcomes (STATS s) \<and>
     irg_reports_made (STATS s') = irg_reports_made (STATS s) \<and>
     control_packets_sent (STATS s') = control_packets_sent (STATS s) \<and>
     (\<forall>j. is_attacker_type (nodes s' j) = is_attacker_type (nodes s j) \<and>
          neighbors (nodes s' j) = neighbors (nodes s j) \<and>
          position (nodes s' j) = position (nodes s j) \<and>
          rpl_parent_id (nodes s' j) = rpl_parent_id (nodes s j) \<and>
          rpl_rank (nodes s' j) = rpl_rank (nodes s j) \<and>
          rpl_version_number (nodes s' j) = rpl_version_number (nodes s j))"

text \<open>
  From \<open>s\<close> to \<open>s'\<close> no node gains energy, no energy becomes negative, and no inert node
  becomes alive.
\<close>

definition energy_ok :: "sim \<Rightarrow> sim \<Rightarrow> bool" where
  "energy_ok s s' \<longleftrightarrow>
     (\<forall>j. (0 \<le> energy (nodes s j) \<longrightarrow>
             energy (nodes s' j) \<le> energy (nodes s j) \<and> 0 \<le> energy (nodes s' j)) \<and>
          (\<not> alive (nodes s j) \<longrightarrow> \<not> alive (nodes s' j)))"

subsection \<open>Example states\<close>

text \<open>
  A node as \<^verbatim>\<open>IoTNode.__init__\<close> leaves a non-sink, with the drawn position and
  advertisement interval fixed, and the initial \<^verbatim>\<open>STATS\<close>.
\<close>

definition node0 :: node where
  "node0 =
     \<lparr>is_attacker_type = None, radio_range = 70, position = (0, 0), neighbors = [],
      energy = 100, is_sink = False, alive = True, rpl_parent_id = None, rpl_rank = \<infinity>,
      rpl_version_number = 0, rpl_dio_interval = 30, rpl_last_dio_sent_time = - 1,
      lia_data = Map.empty, action_interrupts = [], packet_id_counter = 0\<rparr>"

definition stats0 :: stats where
  "stats0 =
     \<lparr>packets_generated = 0, packets_received_dest = 0, packets_dropped_blackhole = 0,
      packets_dropped_selfish = 0, packets_dropped_other = 0, total_delay = 0,
      nodes_energy = Map.empty, rpl_parent_changes = (\<lambda>_. 0),
      sdu_pfg_choices = (\<lambda>_ _. 0), sdu_psg_choices = (\<lambda>_ _. 0),
      lia_pfg_outcomes = (\<lambda>_ _ _. 0), irg_reports_made = (\<lambda>_. 0),
      control_packets_sent = (\<lambda>_ _. 0)\<rparr>"

definition sim0 :: sim where
  "sim0 = \<lparr>nodes = (\<lambda>_. node0), STATS = stats0, now = 0, rng = (\<lambda>_. 1 / 2), rng_pos = 0,
            spawned = []\<rparr>"

definition data_pkt :: packet where
  "data_pkt = Packet ''1-data-0'' 1 (Node 0) 0 (Payload ''payload'') ''DATA''"

text \<open>An archive entry with given forwarding history, and a node 1 that holds three.\<close>

definition lia_counts :: "string option \<Rightarrow> nat \<Rightarrow> nat \<Rightarrow> lia_entry" where
  "lia_counts lo c d = (lia_default (- 60))\<lparr>pfg_last_outcome := lo, pfg_coop_count := c,
     pfg_defect_count := d\<rparr>"

definition sim_lia :: sim where
  "sim_lia = sim0\<lparr>nodes := (nodes sim0)(1 := node0\<lparr>neighbors := [2, 3, 5],
     lia_data := [2 \<mapsto> lia_counts (Some ''Defect'') 3 1,
                  3 \<mapsto> lia_counts (Some ''Cooperate'') 5 0,
                  5 \<mapsto> lia_counts (Some ''Cooperate'') 5 0]\<rparr>)\<rparr>"

text \<open>
  Node 1 has heard five advertisements of neighbour 2, the last of rank 3; the time is 10.
\<close>

definition sim_psg :: sim where
  "sim_psg = sim0\<lparr>now := 10, nodes := (nodes sim0)(1 := node0\<lparr>neighbors := [2],
     lia_data := [2 \<mapsto> (lia_default (- 60))\<lparr>psg_last_rank_advertised := Some (enat 3),
                    psg_dio_timestamps := [1, 2, 3, 4, 5]\<rparr>]\<rparr>)\<rparr>"

text \<open>
  Two states for advertisements of neighbour 2 to node 1. In \<open>sim_dio\<close> node 1 is fresh
  (no parent, rank \<open>inf\<close>) and node 2 has rank 3. In \<open>sim_parent\<close> node 1 has parent 2 and
  rank 2, and node 2 has since moved to rank 5.
\<close>

definition sim_dio :: sim where
  "sim_dio = sim0\<lparr>nodes := (nodes sim0)
     (1 := node0\<lparr>neighbors := [2]\<rparr>, 2 := node0\<lparr>neighbors := [1], rpl_rank := enat 3\<rparr>)\<rparr>"

definition sim_parent :: sim where
  "sim_parent = sim0\<lparr>nodes := (nodes sim0)
     (1 := node0\<lparr>neighbors := [2], rpl_parent_id := Some 2, rpl_rank := enat 2\<rparr>,
      2 := node0\<lparr>neighbors := [1], rpl_rank := enat 5\<rparr>)\<rparr>"

definition dio_pkt :: "node_id \<Rightarrow> enat \<Rightarrow> packet" where
  "dio_pkt src r = Packet (str_nat src @ ''-dio-0'') src BROADCAST 0 (DioData r 0) ''DIO''"

text \<open>
  Two states for data packets handled by node 1. In \<open>sim_blackhole\<close> nodes 1 and 2 are each
  other's only neighbour and node 2 is a blackhole attacker. In \<open>sim_dead\<close> node 1 has the
  neighbours 2 and 3, has seen 3 cooperate five times, and 3 has run out of energy.
\<close>

definition sim_blackhole :: sim where
  "sim_blackhole = sim0\<lparr>nodes := (nodes sim0)
     (1 := node0\<lparr>neighbors := [2]\<rparr>,
      2 := node0\<lparr>neighbors := [1], is_attacker_type := Some ''blackhole''\<rparr>)\<rparr>"

definition sim_dead :: sim where
  "sim_dead = sim0\<lparr>nodes := (nodes sim0)
     (1 := node0\<lparr>neighbors := [2, 3],
                lia_data := [3 \<mapsto> lia_counts (Some ''Cooperate'') 5 0]\<rparr>,
      3 := node0\<lparr>neighbors := [1], energy := 0, alive := False,
                action_interrupts := [''energy_depleted'']\<rparr>)\<rparr>"

text \<open>
  Node 1 has rank 1, the neighbours 2 and 3, and energy 0.005 left, less than the cost of
  one control transmission; \<open>dio_1\<close> is the advertisement it broadcasts at time 0.
\<close>

definition sim_tx :: sim where
  "sim_tx = sim0\<lparr>nodes := (nodes sim0)
     (1 := node0\<lparr>neighbors := [2, 3], energy := 0.005, rpl_parent_id := Some 0,
                rpl_rank := enat 1\<rparr>,
      2 := node0\<lparr>neighbors := [1]\<rparr>, 3 := node0\<lparr>neighbors := [1]\<rparr>)\<rparr>"

definition dio_1 :: packet where
  "dio_1 = Packet ''1-dio-0'' 1 BROADCAST 0 (DioData (enat 1) 0) ''DIO''"

section \<open>Properties\<close>

subsection \<open>Energy accounting of \<open>consume_energy\<close>\<close>

lemma cost_map_get_nonneg: "0 \<le> cost_map_get ct"
  by (simp add: cost_map_get_def E_TX_PKT_def E_RX_PKT_def E_TX_CTRL_def E_RX_CTRL_def
      E_SDU_COMPUTE_def E_LIA_UPDATE_def E_IDLE_LISTEN_def)

lemma consume_energy_node_frame [simp]:
  "is_attacker_type (nodes (consume_energy s i ct a) j) = is_attacker_type (nodes s j)"
  "neighbors (nodes (consume_energy s i ct a) j) = neighbors (nodes s j)"
  "position (nodes (consume_energy s i ct a) j) = position (nodes s j)"
  "rpl_parent_id (nodes (consume_energy s i ct a) j) = rpl_parent_id (nodes s j)"
  "rpl_rank (nodes (consume_energy s i ct a) j) = rpl_rank (nodes s j)"
  "rpl_version_number (nodes (consume_energy s i ct a) j) = rpl_version_number (nodes s j)"
  "lia_data (nodes (consume_energy s i ct a) j) = lia_data (nodes s j)"
  by (simp_all add: consume_energy_def upd_node_def Let_def)

lemma consume_energy_sim_frame [simp]:
  "now (consume_energy s i ct a) = now s"
  "rng (consume_energy s i ct a) = rng s"
  "rng_pos (consume_energy s i ct a) = rng_pos s"
  "spawned (consume_energy s i ct a) = spawned s"
  by (simp_all add: consume_energy_def upd_node_def Let_def)

lemma consume_energy_stats_frame [simp]:
  "packets_generated (STATS (consume_energy s i ct a)) = packets_generated (STATS s)"
  "packets_received_dest (STATS (consume_energy s i ct a)) = packets_received_dest (STATS s)"
  "packets_dropped_blackhole (STATS (consume_energy s i ct a)) = packets_dropped_blackhole (STATS s)"
  "packets_dropped_selfish (STATS (consume_energy s i ct a)) = packets_dropped_selfish (STATS s)"
  "packets_dropped_other (STATS (consume_energy s i ct a)) = packets_dropped_other (STATS s)"
  "total_delay (STATS (consume_energy s i ct a)) = total_delay (STATS s)"
  "rpl_parent_changes (STATS (consume_energy s i ct a)) = rpl_parent_changes (STATS s)"
  "sdu_pfg_choices (STATS (consume_energy s i ct a)) = sdu_pfg_choices (STATS s)"
  "sdu_psg_choices (STATS (consume_energy s i ct a)) = sdu_psg_choices (STATS s)"
  "lia_pfg_outcomes (STATS (consume_energy s i ct a)) = lia_pfg_outcomes (STATS s)"
  "irg_reports_made (STATS (consume_energy s i ct a)) = irg_reports_made (STATS s)"
  "control_packets_sent (STATS (consume_energy s i ct a)) = control_packets_sent (STATS s)"
  by (simp_all add: consume_energy_def upd_node_def Let_def)

lemma consume_energy_other [simp]:
  "j \<noteq> i \<Longrightarrow> nodes (consume_energy s i ct a) j = nodes s j"
  by (simp add: consume_energy_def upd_node_def Let_def)

lemma consume_energy_dead: "\<not> alive (nodes s i) \<Longrightarrow> consume_energy s i ct a = s"
  by (simp add: consume_energy_def)

lemma consume_energy_depleted:
  "alive (nodes s i) \<Longrightarrow>
   energy (nodes s i) - (case a of Some x \<Rightarrow> x | None \<Rightarrow> cost_map_get ct) \<le> 0 \<Longrightarrow>
   energy (nodes (consume_energy s i ct a) i) = 0 \<and>
   \<not> alive (nodes (consume_energy s i ct a) i) \<and>
   action_interrupts (nodes (consume_energy s i ct a) i)
     = action_interrupts (nodes s i) @ [''energy_depleted'']"
  by (simp add: consume_energy_def upd_node_def Let_def)

lemma consume_energy_charged:
  "alive (nodes s i) \<Longrightarrow>
   energy (nodes s i) - (case a of Some x \<Rightarrow> x | None \<Rightarrow> cost_map_get ct) > 0 \<Longrightarrow>
   energy (nodes (consume_energy s i ct a) i)
     = energy (nodes s i) - (case a of Some x \<Rightarrow> x | None \<Rightarrow> cost_map_get ct) \<and>
   alive (nodes (consume_energy s i ct a) i) \<and>
   action_interrupts (nodes (consume_energy s i ct a) i) = action_interrupts (nodes s i)"
  by (simp add: consume_energy_def upd_node_def Let_def)

lemma consume_energy_mono:
  "0 \<le> energy (nodes s j) \<Longrightarrow>
   energy (nodes (consume_energy s i ct None) j) \<le> energy (nodes s j) \<and>
   0 \<le> energy (nodes (consume_energy s i ct None) j)"
  using cost_map_get_nonneg [of ct]
  by (cases "j = i") (auto simp add: consume_energy_def upd_node_def Let_def)

lemma consume_energy_stays_dead:
  "\<not> alive (nodes s j) \<Longrightarrow> \<not> alive (nodes (consume_energy s i ct a) j)"
  by (cases "j = i") (auto simp add: consume_energy_def upd_node_def Let_def)


subsection \<open>Composition of frames\<close>

lemma quiet_refl [simp]: "quiet s s"
  by (simp add: quiet_def)

lemma quiet_trans: "quiet s s1 \<Longrightarrow> quiet s1 s2 \<Longrightarrow> quiet s s2"
  by (simp add: quiet_def)

lemma energy_ok_refl [simp]: "energy_ok s s"
  by (simp add: energy_ok_def)

lemma energy_ok_trans: "energy_ok s s1 \<Longrightarrow> energy_ok s1 s2 \<Longrightarrow> energy_ok s s2"
  unfolding energy_ok_def by (meson order_trans)

lemma quiet_consume_energy: "quiet s (consume_energy s i ct a)"
  by (simp add: quiet_def)

lemma energy_ok_consume_energy: "energy_ok s (consume_energy s i ct None)"
  unfolding energy_ok_def using consume_energy_mono consume_energy_stays_dead by blast

subsection \<open>Archive access\<close>

lemma lia_set_nodes:
  "nodes (lia_set s i k e) j =
     (if j = i then (nodes s i)\<lparr>lia_data := (lia_data (nodes s i))(k \<mapsto> e)\<rparr> else nodes s j)"
  by (simp add: lia_set_def upd_node_def)

lemma lia_set_sim_frame [simp]:
  "STATS (lia_set s i k e) = STATS s"
  "now (lia_set s i k e) = now s"
  "rng (lia_set s i k e) = rng s"
  "rng_pos (lia_set s i k e) = rng_pos s"
  "spawned (lia_set s i k e) = spawned s"
  by (simp_all add: lia_set_def upd_node_def)

lemma quiet_lia_set: "quiet s (lia_set s i k e)"
  by (simp add: quiet_def lia_set_nodes)

lemma energy_ok_lia_set: "energy_ok s (lia_set s i k e)"
  by (simp add: energy_ok_def lia_set_nodes)

lemma quiet_lia_get: "quiet s (snd (lia_get s i k))"
  by (simp add: lia_get_def random_uniform_def random_random_def quiet_def lia_set_nodes
      split: option.splits)

lemma energy_ok_lia_get: "energy_ok s (snd (lia_get s i k))"
  by (simp add: lia_get_def random_uniform_def random_random_def energy_ok_def lia_set_nodes
      split: option.splits)

lemma lia_get_Some: "lia_data (nodes s i) k = Some e \<Longrightarrow> lia_get s i k = (e, s)"
  by (simp add: lia_get_def)

lemma lia_get_stored:
  "lia_data (nodes (snd (lia_get s i k)) i) k = Some (fst (lia_get s i k))"
  by (simp add: lia_get_def random_uniform_def random_random_def lia_set_nodes
      split: option.splits)

lemma pfg_view_lia_get: "pfg_view (nodes (snd (lia_get s i k)) j) k' = pfg_view (nodes s j) k'"
  by (simp add: lia_get_def random_uniform_def random_random_def lia_set_nodes pfg_view_def
      lia_default_def split: option.splits)

lemma pfg_view_consume_energy [simp]:
  "pfg_view (nodes (consume_energy s i ct a) j) k = pfg_view (nodes s j) k"
  by (simp add: pfg_view_def)

lemma lia_get_view:
  "(pfg_last_outcome (fst (lia_get s i k)), pfg_coop_count (fst (lia_get s i k)),
    pfg_defect_count (fst (lia_get s i k))) = pfg_view (nodes s i) k"
  by (simp add: lia_get_def random_uniform_def random_random_def pfg_view_def lia_default_def
      split: option.splits)


subsection \<open>Cooperation estimate\<close>

lemma p_cooperate_view:
  "fst (lia_get_pfg_p_cooperate s i k) =
     (case pfg_view (nodes s i) k of (lo, c, d) \<Rightarrow>
        if c + d = 0 then 0.5
        else np_clip
          (if lo = Some ''Defect'' then max 0.01 (real c / real (c + d) * 0.3)
           else if lo = Some ''Cooperate'' then min 0.99 (real c / real (c + d) * 1.1 + 0.2)
           else real c / real (c + d)) 0.01 0.99)"
proof -
  obtain entry s2 where g: "lia_get (consume_energy s i ''lia'' None) i k = (entry, s2)"
    by (cases "lia_get (consume_energy s i ''lia'' None) i k")
  have v: "pfg_view (nodes s i) k
             = (pfg_last_outcome entry, pfg_coop_count entry, pfg_defect_count entry)"
    using lia_get_view [of "consume_energy s i ''lia'' None" i k] g by simp
  show ?thesis
    unfolding lia_get_pfg_p_cooperate_def Let_def g v by simp
qed

lemma p_cooperate_cong:
  "pfg_view (nodes s' i) k = pfg_view (nodes s i) k \<Longrightarrow>
   fst (lia_get_pfg_p_cooperate s' i k) = fst (lia_get_pfg_p_cooperate s i k)"
  by (simp only: p_cooperate_view)

lemma p_cooperate_snd:
  "snd (lia_get_pfg_p_cooperate s i k) = snd (lia_get (consume_energy s i ''lia'' None) i k)"
proof -
  obtain entry s2 where g: "lia_get (consume_energy s i ''lia'' None) i k = (entry, s2)"
    by (cases "lia_get (consume_energy s i ''lia'' None) i k")
  show ?thesis
    unfolding lia_get_pfg_p_cooperate_def Let_def g by simp
qed

lemma pfg_view_p_cooperate:
  "pfg_view (nodes (snd (lia_get_pfg_p_cooperate s i k)) j) k' = pfg_view (nodes s j) k'"
  by (simp add: p_cooperate_snd pfg_view_lia_get)

lemma quiet_p_cooperate: "quiet s (snd (lia_get_pfg_p_cooperate s i k))"
  unfolding p_cooperate_snd
  by (rule quiet_trans [OF quiet_consume_energy quiet_lia_get])

lemma energy_ok_p_cooperate: "energy_ok s (snd (lia_get_pfg_p_cooperate s i k))"
  unfolding p_cooperate_snd
  by (rule energy_ok_trans [OF energy_ok_consume_energy energy_ok_lia_get])

lemma eu_send_cong:
  "pfg_view (nodes s' i) k = pfg_view (nodes s i) k \<Longrightarrow> eu_send s' i k = eu_send s i k"
  unfolding eu_send_def by (simp only: p_cooperate_view)

subsection \<open>The forwarder loop\<close>

lemma pfg_loop_pick:
  "(\<And>k. pfg_view (nodes s i) k = pfg_view (nodes s0 i) k) \<Longrightarrow>
   fst (pfg_loop s i cs best mx act) = pfg_pick (eu_send s0 i) cs best mx act"
proof (induction cs arbitrary: s best mx act)
  case Nil
  then show ?case by simp
next
  case (Cons c cs)
  obtain p s1 where g: "lia_get_pfg_p_cooperate s i c = (p, s1)"
    by (cases "lia_get_pfg_p_cooperate s i c")
  have s1: "s1 = snd (lia_get_pfg_p_cooperate s i c)" and p: "p = fst (lia_get_pfg_p_cooperate s i c)"
    using g by simp_all
  have v1: "\<And>k. pfg_view (nodes s1 i) k = pfg_view (nodes s0 i) k"
    unfolding s1 by (simp add: pfg_view_p_cooperate Cons.prems)
  have eu: "p * PFG_SENDER_PAYOFFS_Send_Cooperate + (1 - p) * PFG_SENDER_PAYOFFS_Send_Defect
              = eu_send s0 i c"
    using eu_send_cong [OF Cons.prems, of c] by (simp add: eu_send_def p Let_def)
  show ?case
    using Cons.IH [OF v1] by (simp add: g eu Let_def)
qed

lemma quiet_pfg_loop: "quiet s (snd (pfg_loop s i cs best mx act))"
proof (induction cs arbitrary: s best mx act)
  case Nil
  then show ?case by simp
next
  case (Cons c cs)
  obtain p s1 where g: "lia_get_pfg_p_cooperate s i c = (p, s1)"
    by (cases "lia_get_pfg_p_cooperate s i c")
  have q: "quiet s s1" using quiet_p_cooperate [of s i c] g by simp
  show ?case
    using Cons.IH [of s1] q by (auto simp add: g Let_def intro: quiet_trans)
qed

lemma energy_ok_pfg_loop: "energy_ok s (snd (pfg_loop s i cs best mx act))"
proof (induction cs arbitrary: s best mx act)
  case Nil
  then show ?case by simp
next
  case (Cons c cs)
  obtain p s1 where g: "lia_get_pfg_p_cooperate s i c = (p, s1)"
    by (cases "lia_get_pfg_p_cooperate s i c")
  have q: "energy_ok s s1" using energy_ok_p_cooperate [of s i c] g by simp
  show ?case
    using Cons.IH [of s1] q by (auto simp add: g Let_def intro: energy_ok_trans)
qed

lemma pfg_pick_keep:
  "\<forall>c \<in> set cs. eu c \<le> mx \<Longrightarrow> pfg_pick eu cs best mx act = (best, mx, act)"
  by (induction cs) auto

lemma pfg_pick_first_max:
  "\<exists>c \<in> set cs. eu c > mx \<Longrightarrow>
   \<exists>k < length cs. pfg_pick eu cs best mx act = (Some (cs ! k), eu (cs ! k), ''Send'') \<and>
      mx < eu (cs ! k) \<and> (\<forall>c \<in> set cs. eu c \<le> eu (cs ! k)) \<and>
      (\<forall>j < k. eu (cs ! j) < eu (cs ! k))"
proof (induction cs arbitrary: best mx act)
  case Nil
  then show ?case by simp
next
  case (Cons c cs)
  show ?case
  proof (cases "eu c > mx")
    case True
    show ?thesis
    proof (cases "\<exists>d \<in> set cs. eu d > eu c")
      case False
      then have "\<forall>d \<in> set cs. eu d \<le> eu c" by (simp add: not_less)
      then have "pfg_pick eu (c # cs) best mx act = (Some c, eu c, ''Send'')"
        using True by (simp add: pfg_pick_keep)
      moreover have "\<forall>d \<in> set (c # cs). eu d \<le> eu c"
        using \<open>\<forall>d \<in> set cs. eu d \<le> eu c\<close> by simp
      ultimately show ?thesis using True by (intro exI [of _ 0]) simp
    next
      case greater: True
      from Cons.IH [OF greater, of "Some c" "''Send''"]
      obtain k where k: "k < length cs"
        "pfg_pick eu cs (Some c) (eu c) ''Send'' = (Some (cs ! k), eu (cs ! k), ''Send'')"
        "eu c < eu (cs ! k)" "\<forall>d \<in> set cs. eu d \<le> eu (cs ! k)"
        "\<forall>j < k. eu (cs ! j) < eu (cs ! k)"
        by blast
      have "\<forall>j < Suc k. eu ((c # cs) ! j) < eu (cs ! k)"
        using k(3,5) by (auto simp add: nth_Cons split: nat.splits)
      then show ?thesis
        using True k by (intro exI [of _ "Suc k"]) auto
    qed
  next
    case False
    then have le: "eu c \<le> mx" by simp
    with Cons.prems have "\<exists>d \<in> set cs. eu d > mx" by auto
    from Cons.IH [OF this, of best act]
    obtain k where k: "k < length cs"
      "pfg_pick eu cs best mx act = (Some (cs ! k), eu (cs ! k), ''Send'')"
      "mx < eu (cs ! k)" "\<forall>d \<in> set cs. eu d \<le> eu (cs ! k)"
      "\<forall>j < k. eu (cs ! j) < eu (cs ! k)"
      by blast
    have "\<forall>j < Suc k. eu ((c # cs) ! j) < eu (cs ! k)"
      using k(3,5) le by (auto simp add: nth_Cons split: nat.splits)
    then show ?thesis
      using False le k by (intro exI [of _ "Suc k"]) auto
  qed
qed

lemma select_forwarder_fst:
  "fst (sdu_pfg_select_forwarder s i pkt cs) =
     (if cs = [] then (None, ''Hold'')
      else case pfg_pick (eu_send s i) cs None PFG_SENDER_PAYOFFS_Hold ''Hold'' of
             (best, mx, act) \<Rightarrow> (best, act))"
proof (cases "cs = []")
  case True
  then show ?thesis by (simp add: sdu_pfg_select_forwarder_def)
next
  case False
  have "fst (pfg_loop (consume_energy s i ''sdu'' None) i cs None PFG_SENDER_PAYOFFS_Hold ''Hold'')
          = pfg_pick (eu_send s i) cs None PFG_SENDER_PAYOFFS_Hold ''Hold''"
    by (rule pfg_loop_pick) simp
  then show ?thesis
    using False by (auto simp add: sdu_pfg_select_forwarder_def Let_def split: prod.splits)
qed

subsection \<open>The cooperation estimate \<open>lia_get_pfg_p_cooperate\<close>\<close>

lemma np_clip_scaled:
  fixes x :: real
  assumes "0 \<le> x" and "x \<le> 1"
  shows "np_clip (max 0.01 (x * 0.3)) 0.01 0.99 = max 0.01 (x * 0.3)"
    and "np_clip (min 0.99 (x * 1.1 + 0.2)) 0.01 0.99 = min 0.99 (x * 1.1 + 0.2)"
  using assms unfolding np_clip_def by (auto simp add: min_def max_def)

lemma np_clip_range: "0.01 \<le> np_clip x 0.01 0.99 \<and> np_clip x 0.01 0.99 \<le> 0.99"
  unfolding np_clip_def by (auto simp add: min_def max_def)

lemma count_ratio_range: "0 \<le> real c / real (c + d) \<and> real c / real (c + d) \<le> 1"
proof (cases "c + d = 0")
  case True
  then show ?thesis by simp
next
  case False
  then have "0 < c + d" by simp
  then have pos: "0 < real (c + d)" by (simp only: of_nat_0_less_iff)
  have "real c \<le> real (c + d)" by simp
  then have "real c / real (c + d) \<le> 1"
    using pos by (simp only: divide_le_eq_1_pos)
  moreover have "0 \<le> real c / real (c + d)" by simp
  ultimately show ?thesis by simp
qed

text \<open>
  Claim C6. \<open>lia_get_pfg_p_cooperate\<close> returns exactly 0.5 when the neighbour's cooperate
  and defect counts are both zero. Otherwise, if the last outcome was Defect it returns the
  cooperate ratio times 0.3, floored at 0.01; if the last outcome was Cooperate it returns
  the ratio times 1.1 plus 0.2, capped at 0.99. The returned value always lies in
  [0.01, 0.99].
\<close>

theorem p_cooperate_spec:
  "let e = lia_entry_of s i k;
       p = fst (lia_get_pfg_p_cooperate s i k);
       ratio = real (pfg_coop_count e) / real (pfg_coop_count e + pfg_defect_count e)
   in (pfg_coop_count e = 0 \<and> pfg_defect_count e = 0 \<longrightarrow> p = 0.5) \<and>
      (pfg_coop_count e + pfg_defect_count e \<noteq> 0 \<and> pfg_last_outcome e = Some ''Defect''
         \<longrightarrow> p = max 0.01 (ratio * 0.3)) \<and>
      (pfg_coop_count e + pfg_defect_count e \<noteq> 0 \<and> pfg_last_outcome e = Some ''Cooperate''
         \<longrightarrow> p = min 0.99 (ratio * 1.1 + 0.2)) \<and>
      0.01 \<le> p \<and> p \<le> 0.99"
proof -
  obtain lo c d where v: "pfg_view (nodes s i) k = (lo, c, d)"
    by (cases "pfg_view (nodes s i) k")
  have e: "pfg_last_outcome (lia_entry_of s i k) = lo" "pfg_coop_count (lia_entry_of s i k) = c"
    "pfg_defect_count (lia_entry_of s i k) = d"
    using lia_get_view [of s i k] v by (simp_all add: lia_entry_of_def)
  define x where "x = real c / real (c + d)"
  have x: "0 \<le> x" "x \<le> 1"
    using count_ratio_range [of c d] by (simp_all add: x_def)
  define p where "p = fst (lia_get_pfg_p_cooperate s i k)"
  have p: "p = (if c + d = 0 then 0.5
                else np_clip
                  (if lo = Some ''Defect'' then max 0.01 (x * 0.3)
                   else if lo = Some ''Cooperate'' then min 0.99 (x * 1.1 + 0.2)
                   else x) 0.01 0.99)"
    unfolding p_def x_def p_cooperate_view v by simp
  have zero: "c = 0 \<and> d = 0 \<longrightarrow> p = 0.5"
    by (simp add: p)
  have defect: "c + d \<noteq> 0 \<and> lo = Some ''Defect'' \<longrightarrow> p = max 0.01 (x * 0.3)"
    using np_clip_scaled(1) [OF x] by (simp add: p)
  have coop: "c + d \<noteq> 0 \<and> lo = Some ''Cooperate'' \<longrightarrow> p = min 0.99 (x * 1.1 + 0.2)"
    using np_clip_scaled(2) [OF x] by (simp add: p)
  have range: "0.01 \<le> p \<and> p \<le> 0.99"
  proof (cases "c + d = 0")
    case True
    then show ?thesis by (simp add: p)
  next
    case False
    then show ?thesis unfolding p using np_clip_range by simp
  qed
  show ?thesis
    unfolding Let_def e using zero defect coop range
    unfolding p_def x_def by blast
qed

text \<open>
  The three cases at node 1 of \<open>sim_lia\<close>: neighbour 4 was never observed, neighbour 2
  cooperated 3 times out of 4 and defected last, neighbour 3 cooperated 5 times out of 5.
\<close>

theorem p_cooperate_spec_witness:
  "(pfg_coop_count (lia_entry_of sim_lia 1 4) = 0 \<and> pfg_defect_count (lia_entry_of sim_lia 1 4) = 0) \<and>
   fst (lia_get_pfg_p_cooperate sim_lia 1 4) = 0.5 \<and>
   (pfg_coop_count (lia_entry_of sim_lia 1 2) + pfg_defect_count (lia_entry_of sim_lia 1 2) \<noteq> 0 \<and>
    pfg_last_outcome (lia_entry_of sim_lia 1 2) = Some ''Defect'') \<and>
   fst (lia_get_pfg_p_cooperate sim_lia 1 2) = 0.225 \<and>
   (pfg_coop_count (lia_entry_of sim_lia 1 3) + pfg_defect_count (lia_entry_of sim_lia 1 3) \<noteq> 0 \<and>
    pfg_last_outcome (lia_entry_of sim_lia 1 3) = Some ''Cooperate'') \<and>
   fst (lia_get_pfg_p_cooperate sim_lia 1 3) = 0.99"
proof -
  have e: "lia_entry_of sim_lia 1 4 = lia_default (- 60)"
    "lia_entry_of sim_lia 1 2 = lia_counts (Some ''Defect'') 3 1"
    "lia_entry_of sim_lia 1 3 = lia_counts (Some ''Cooperate'') 5 0"
    by (simp_all add: lia_entry_of_def lia_get_def sim_lia_def sim0_def node0_def
        random_uniform_def random_random_def)
  show ?thesis
    using p_cooperate_spec [of sim_lia 1 4] p_cooperate_spec [of sim_lia 1 2]
      p_cooperate_spec [of sim_lia 1 3]
    unfolding e Let_def by (simp add: lia_counts_def lia_default_def)
qed

subsection \<open>Forwarder selection \<open>sdu_pfg_select_forwarder\<close>\<close>

lemma eu_send_value:
  "eu_send s i c = fst (lia_get_pfg_p_cooperate s i c) * 4
                   + (1 - fst (lia_get_pfg_p_cooperate s i c)) * (- 11)"
  by (simp add: eu_send_def Let_def PFG_SENDER_PAYOFFS_Send_Cooperate_def
      PFG_SENDER_PAYOFFS_Send_Defect_def)

lemma p_cooperate_sim_lia:
  "fst (lia_get_pfg_p_cooperate sim_lia (Suc 0) 2) = 0.225"
  "fst (lia_get_pfg_p_cooperate sim_lia (Suc 0) 3) = 0.99"
  "fst (lia_get_pfg_p_cooperate sim_lia (Suc 0) 4) = 0.5"
  "fst (lia_get_pfg_p_cooperate sim_lia (Suc 0) 5) = 0.99"
  by (simp_all add: p_cooperate_view pfg_view_def sim_lia_def sim0_def node0_def
      lia_counts_def lia_default_def np_clip_def)

text \<open>
  Claim C7. \<open>sdu_pfg_select_forwarder\<close> returns \<open>(None, 'Hold')\<close> for an empty candidate
  list and whenever every candidate's expected utility \<open>p * 4 + (1 - p) * (-11)\<close> is at
  most the hold payoff \<open>-0.1\<close>. Otherwise it returns \<open>'Send'\<close> with a candidate whose
  expected utility exceeds the hold payoff and is greatest among the candidates; among
  candidates of equal utility the first in iteration order is returned.
\<close>

theorem select_forwarder_spec:
  "let r = fst (sdu_pfg_select_forwarder s i pkt cs);
       eu = (\<lambda>c. fst (lia_get_pfg_p_cooperate s i c) * 4
                  + (1 - fst (lia_get_pfg_p_cooperate s i c)) * (- 11))
   in (cs = [] \<longrightarrow> r = (None, ''Hold'')) \<and>
      ((\<forall>c \<in> set cs. eu c \<le> - 0.1) \<longrightarrow> r = (None, ''Hold'')) \<and>
      ((\<exists>c \<in> set cs. eu c > - 0.1) \<longrightarrow>
         (\<exists>k < length cs. r = (Some (cs ! k), ''Send'') \<and> eu (cs ! k) > - 0.1 \<and>
            (\<forall>c \<in> set cs. eu c \<le> eu (cs ! k)) \<and> (\<forall>j < k. eu (cs ! j) < eu (cs ! k))))"
proof -
  define eu where "eu = eu_send s i"
  have eu: "(\<lambda>c. fst (lia_get_pfg_p_cooperate s i c) * 4
                  + (1 - fst (lia_get_pfg_p_cooperate s i c)) * (- 11)) = eu"
    unfolding eu_def by (rule ext) (simp only: eu_send_value)
  define r where "r = fst (sdu_pfg_select_forwarder s i pkt cs)"
  have r: "r = (if cs = [] then (None, ''Hold'')
               else case pfg_pick eu cs None (- 0.1) ''Hold'' of (best, mx, act) \<Rightarrow> (best, act))"
    unfolding r_def eu_def select_forwarder_fst PFG_SENDER_PAYOFFS_Hold_def by simp
  have empty: "cs = [] \<longrightarrow> r = (None, ''Hold'')"
    by (simp add: r)
  have hold: "(\<forall>c \<in> set cs. eu c \<le> - 0.1) \<longrightarrow> r = (None, ''Hold'')"
    by (simp add: r pfg_pick_keep)
  have send: "(\<exists>c \<in> set cs. eu c > - 0.1) \<longrightarrow>
         (\<exists>k < length cs. r = (Some (cs ! k), ''Send'') \<and> eu (cs ! k) > - 0.1 \<and>
            (\<forall>c \<in> set cs. eu c \<le> eu (cs ! k)) \<and> (\<forall>j < k. eu (cs ! j) < eu (cs ! k)))"
  proof
    assume ex: "\<exists>c \<in> set cs. eu c > - 0.1"
    then have ne: "cs \<noteq> []" by auto
    from pfg_pick_first_max [OF ex, of None "''Hold''"]
    obtain k where k: "k < length cs"
      "pfg_pick eu cs None (- 0.1) ''Hold'' = (Some (cs ! k), eu (cs ! k), ''Send'')"
      "- 0.1 < eu (cs ! k)" "\<forall>c \<in> set cs. eu c \<le> eu (cs ! k)"
      "\<forall>j < k. eu (cs ! j) < eu (cs ! k)"
      by blast
    have "r = (Some (cs ! k), ''Send'')"
      using ne by (simp add: r k(2))
    then show "\<exists>k < length cs. r = (Some (cs ! k), ''Send'') \<and> eu (cs ! k) > - 0.1 \<and>
            (\<forall>c \<in> set cs. eu c \<le> eu (cs ! k)) \<and> (\<forall>j < k. eu (cs ! j) < eu (cs ! k))"
      using k by blast
  qed
  show ?thesis
    unfolding Let_def eu using empty hold send unfolding r_def by blast
qed

text \<open>
  At node 1 of \<open>sim_lia\<close> the utilities of the candidates 2, 3, 5 are -7.625, 3.85 and
  3.85: candidate 3, the first of the two best, is sent to. The candidate 4 alone, never
  observed, has utility -3.5 and is held.
\<close>

theorem select_forwarder_spec_witness:
  "let eu = (\<lambda>c. fst (lia_get_pfg_p_cooperate sim_lia 1 c) * 4
                  + (1 - fst (lia_get_pfg_p_cooperate sim_lia 1 c)) * (- 11))
   in (\<exists>c \<in> set [2, 3, 5]. eu c > - 0.1) \<and>
      fst (sdu_pfg_select_forwarder sim_lia 1 data_pkt [2, 3, 5]) = (Some 3, ''Send'') \<and>
      (\<forall>c \<in> set [4]. eu c \<le> - 0.1) \<and>
      fst (sdu_pfg_select_forwarder sim_lia 1 data_pkt [4]) = (None, ''Hold'') \<and>
      fst (sdu_pfg_select_forwarder sim_lia 1 data_pkt []) = (None, ''Hold'')"
proof -
  define eu where "eu = (\<lambda>c. fst (lia_get_pfg_p_cooperate sim_lia 1 c) * 4
                  + (1 - fst (lia_get_pfg_p_cooperate sim_lia 1 c)) * (- 11))"
  have v: "eu 2 = - 7.625" "eu 3 = 3.85" "eu 4 = - 3.5" "eu 5 = 3.85"
    by (simp_all add: eu_def p_cooperate_sim_lia)
  have h1: "\<exists>c \<in> set [2, 3, 5]. eu c > - 0.1"
    by (simp add: v)
  have h2: "\<forall>c \<in> set [4]. eu c \<le> - 0.1"
    by (simp add: v)
  have "\<exists>k < length [2, 3, 5 :: nat].
          fst (sdu_pfg_select_forwarder sim_lia 1 data_pkt [2, 3, 5]) = (Some ([2, 3, 5] ! k), ''Send'') \<and>
          eu ([2, 3, 5] ! k) > - 0.1 \<and> (\<forall>c \<in> set [2, 3, 5]. eu c \<le> eu ([2, 3, 5] ! k)) \<and>
          (\<forall>j < k. eu ([2, 3, 5] ! j) < eu ([2, 3, 5] ! k))"
    using select_forwarder_spec [of sim_lia 1 data_pkt "[2, 3, 5]"] h1
    unfolding Let_def eu_def by blast
  then obtain k where k: "k < length [2, 3, 5 :: nat]"
    "fst (sdu_pfg_select_forwarder sim_lia 1 data_pkt [2, 3, 5]) = (Some ([2, 3, 5] ! k), ''Send'')"
    "\<forall>c \<in> set [2, 3, 5]. eu c \<le> eu ([2, 3, 5] ! k)"
    "\<forall>j < k. eu ([2, 3, 5] ! j) < eu ([2, 3, 5] ! k)"
    by blast
  have "k < 3" using k(1) by simp
  then have "k = 0 \<or> k = 1 \<or> k = 2" by arith
  then have "k = 1"
  proof (elim disjE)
    assume "k = 0"
    with k(3) have "eu 3 \<le> eu 2" by simp
    then show ?thesis by (simp add: v)
  next
    assume "k = 1"
    then show ?thesis .
  next
    assume k2: "k = 2"
    have "(1::nat) < k" by (simp add: k2)
    with k(4) have "eu ([2, 3, 5] ! 1) < eu ([2, 3, 5] ! k)"
      by blast
    then show ?thesis by (simp add: v k2)
  qed
  with k(2) have r1: "fst (sdu_pfg_select_forwarder sim_lia 1 data_pkt [2, 3, 5]) = (Some 3, ''Send'')"
    by simp
  have r2: "fst (sdu_pfg_select_forwarder sim_lia 1 data_pkt [4]) = (None, ''Hold'')"
    using select_forwarder_spec [of sim_lia 1 data_pkt "[4]"] h2
    unfolding Let_def eu_def by blast
  have r3: "fst (sdu_pfg_select_forwarder sim_lia 1 data_pkt []) = (None, ''Hold'')"
    using select_forwarder_spec [of sim_lia 1 data_pkt "[]"]
    unfolding Let_def by blast
  show ?thesis unfolding Let_def using h1 h2 r1 r2 r3 unfolding eu_def by blast
qed

subsection \<open>The empty candidate list\<close>

text \<open>
  Claim C10. Called with an empty candidate list, \<open>sdu_pfg_select_forwarder\<close> returns
  \<open>(None, 'Hold')\<close> in the state that charging the decision cost \<open>'sdu'\<close> (0.001) leaves,
  and the tallies \<open>sdu_pfg_choices\<close> are unchanged; so a call that changes the \<open>'Hold'\<close>
  tally of a node has a non-empty candidate list.
\<close>

theorem select_forwarder_empty:
  "sdu_pfg_select_forwarder s i pkt [] = ((None, ''Hold''), consume_energy s i ''sdu'' None) \<and>
   cost_map_get ''sdu'' = 0.001 \<and>
   sdu_pfg_choices (STATS (snd (sdu_pfg_select_forwarder s i pkt []))) = sdu_pfg_choices (STATS s) \<and>
   (sdu_pfg_choices (STATS (snd (sdu_pfg_select_forwarder s i pkt cs))) j (StrKey ''Hold'')
      \<noteq> sdu_pfg_choices (STATS s) j (StrKey ''Hold'') \<longrightarrow> cs \<noteq> [])"
proof -
  have e: "sdu_pfg_select_forwarder s i pkt [] = ((None, ''Hold''), consume_energy s i ''sdu'' None)"
    by (simp add: sdu_pfg_select_forwarder_def)
  have c: "cost_map_get ''sdu'' = 0.001"
    by (simp add: cost_map_get_def E_SDU_COMPUTE_def)
  have u: "sdu_pfg_choices (STATS (snd (sdu_pfg_select_forwarder s i pkt []))) = sdu_pfg_choices (STATS s)"
    by (simp add: e)
  have "cs = [] \<Longrightarrow> sdu_pfg_choices (STATS (snd (sdu_pfg_select_forwarder s i pkt cs))) j (StrKey ''Hold'')
      = sdu_pfg_choices (STATS s) j (StrKey ''Hold'')"
    using u by simp
  then show ?thesis using e c u by blast
qed

text \<open>
  At node 1 of \<open>sim0\<close>, the call with the one candidate 4 holds and counts it: the \<open>'Hold'\<close>
  tally goes from 0 to 1.
\<close>

theorem select_forwarder_empty_witness:
  "sdu_pfg_choices (STATS (snd (sdu_pfg_select_forwarder sim0 1 data_pkt [4]))) 1 (StrKey ''Hold'')
     \<noteq> sdu_pfg_choices (STATS sim0) 1 (StrKey ''Hold'') \<and> [4 :: nat] \<noteq> []"
proof -
  have q: "quiet (consume_energy sim0 1 ''sdu'' None)
             (snd (pfg_loop (consume_energy sim0 1 ''sdu'' None) 1 [4] None PFG_SENDER_PAYOFFS_Hold ''Hold''))"
    by (rule quiet_pfg_loop)
  have f: "fst (sdu_pfg_select_forwarder sim0 1 data_pkt [4]) = (None, ''Hold'')"
    by (simp add: select_forwarder_fst eu_send_value p_cooperate_view pfg_view_def sim0_def
        node0_def PFG_SENDER_PAYOFFS_Hold_def)
  obtain best mx act s2 where
    l: "pfg_loop (consume_energy sim0 1 ''sdu'' None) 1 [4] None PFG_SENDER_PAYOFFS_Hold ''Hold''
          = ((best, mx, act), s2)"
    by (metis prod.exhaust)
  have b: "best = None"
    using f l by (simp add: sdu_pfg_select_forwarder_def Let_def)
  have "sdu_pfg_choices (STATS s2) = sdu_pfg_choices (STATS sim0)"
    using q l by (simp add: quiet_def)
  then have "sdu_pfg_choices (STATS (snd (sdu_pfg_select_forwarder sim0 1 data_pkt [4]))) 1 (StrKey ''Hold'')
     = 1"
    using l b by (simp add: sdu_pfg_select_forwarder_def Let_def id_or_def truthy_def incr2_def
        incr_def sim0_def stats0_def)
  moreover have "sdu_pfg_choices (STATS sim0) 1 (StrKey ''Hold'') = 0"
    by (simp add: sim0_def stats0_def)
  ultimately show ?thesis
    using select_forwarder_empty [where s = sim0 and i = 1 and pkt = data_pkt and j = 1 and cs = "[4]"] by simp
qed

subsection \<open>Advertisement history \<open>lia_update_psg_from_dio\<close>\<close>

lemma lia_get_consume_energy:
  "fst (lia_get (consume_energy s i ct a) i k) = fst (lia_get s i k)"
  by (simp add: lia_get_def random_uniform_def random_random_def split: option.splits)

lemma now_lia_get: "now (snd (lia_get s i k)) = now s"
  using quiet_lia_get [of s i k] by (simp add: quiet_def)

lemma lia_set_stored: "lia_data (nodes (lia_set s i k e) i) k = Some e"
  by (simp add: lia_set_nodes)

lemma stability_range:
  fixes st :: real
  assumes "0 \<le> st" and "st \<le> 1"
  shows "0 \<le> st * 0.8 \<and> st * 0.8 \<le> 1 \<and> 0 \<le> min 1 (st * 1.05 + 0.05)
         \<and> min 1 (st * 1.05 + 0.05) \<le> 1"
  using assms by (auto simp add: min_def)

lemma deque_append_length: "length xs \<le> 5 \<Longrightarrow> length (deque_append xs x) \<le> 5"
  by (cases xs) (auto simp add: deque_append_def)

lemma update_psg_entry:
  "lia_data (nodes (lia_update_psg_from_dio s i k rank version) i) k =
     Some ((lia_entry_of s i k)\<lparr>
       psg_dio_timestamps := deque_append (psg_dio_timestamps (lia_entry_of s i k)) (now s),
       psg_rank_stability_score :=
         (case psg_last_rank_advertised (lia_entry_of s i k) of
            None \<Rightarrow> psg_rank_stability_score (lia_entry_of s i k)
          | Some prev \<Rightarrow>
              if abs_rank_diff_gt_2 rank prev
              then psg_rank_stability_score (lia_entry_of s i k) * 0.8
              else min 1.0 (psg_rank_stability_score (lia_entry_of s i k) * 1.05 + 0.05)),
       psg_last_rank_advertised := Some rank\<rparr>)"
proof -
  obtain entry s2 where g: "lia_get (consume_energy s i ''lia'' None) i k = (entry, s2)"
    by (cases "lia_get (consume_energy s i ''lia'' None) i k")
  have e: "lia_entry_of s i k = entry"
    using lia_get_consume_energy [of s i "''lia''" None k] g by (simp add: lia_entry_of_def)
  have n: "now s2 = now s"
    using now_lia_get [of "consume_energy s i ''lia'' None" i k] g by simp
  show ?thesis
    unfolding lia_update_psg_from_dio_def Let_def g e
    by (simp add: lia_set_stored n split: option.splits)
qed

text \<open>
  Claim C9. \<open>lia_update_psg_from_dio\<close> appends the current time to the window of
  timestamps, which holds at most 5 (a full window loses its oldest element). When a rank
  was advertised before, the stability score is multiplied by 0.8 if the absolute rank
  change exceeds 2, and otherwise becomes the score times 1.05 plus 0.05, capped at 1;
  the new rank is stored. A score in [0, 1] stays in [0, 1].
\<close>

theorem lia_update_psg_from_dio_spec:
  "let old = lia_entry_of s i k;
       ts = psg_dio_timestamps old;
       st = psg_rank_stability_score old;
       s' = lia_update_psg_from_dio s i k rank version
   in \<exists>e'. lia_data (nodes s' i) k = Some e' \<and>
        psg_dio_timestamps e' = (if length ts < 5 then ts @ [now s] else tl ts @ [now s]) \<and>
        (length ts \<le> 5 \<longrightarrow> length (psg_dio_timestamps e') \<le> 5) \<and>
        (psg_last_rank_advertised old = None \<longrightarrow> psg_rank_stability_score e' = st) \<and>
        (\<forall>prev. psg_last_rank_advertised old = Some prev \<and> abs_rank_diff_gt_2 rank prev
           \<longrightarrow> psg_rank_stability_score e' = st * 0.8) \<and>
        (\<forall>prev. psg_last_rank_advertised old = Some prev \<and> \<not> abs_rank_diff_gt_2 rank prev
           \<longrightarrow> psg_rank_stability_score e' = min 1 (st * 1.05 + 0.05)) \<and>
        (0 \<le> st \<and> st \<le> 1
           \<longrightarrow> 0 \<le> psg_rank_stability_score e' \<and> psg_rank_stability_score e' \<le> 1) \<and>
        psg_last_rank_advertised e' = Some rank"
proof -
  define old where "old = lia_entry_of s i k"
  define e' where "e' = old\<lparr>
       psg_dio_timestamps := deque_append (psg_dio_timestamps old) (now s),
       psg_rank_stability_score :=
         (case psg_last_rank_advertised old of
            None \<Rightarrow> psg_rank_stability_score old
          | Some prev \<Rightarrow>
              if abs_rank_diff_gt_2 rank prev
              then psg_rank_stability_score old * 0.8
              else min 1.0 (psg_rank_stability_score old * 1.05 + 0.05)),
       psg_last_rank_advertised := Some rank\<rparr>"
  have stored: "lia_data (nodes (lia_update_psg_from_dio s i k rank version) i) k = Some e'"
    unfolding e'_def old_def by (rule update_psg_entry)
  have ts: "psg_dio_timestamps e' =
              (if length (psg_dio_timestamps old) < 5 then psg_dio_timestamps old @ [now s]
               else tl (psg_dio_timestamps old) @ [now s])"
    by (simp add: e'_def deque_append_def)
  have len: "length (psg_dio_timestamps old) \<le> 5 \<longrightarrow> length (psg_dio_timestamps e') \<le> 5"
    by (simp add: e'_def deque_append_length)
  have none: "psg_last_rank_advertised old = None
                \<longrightarrow> psg_rank_stability_score e' = psg_rank_stability_score old"
    by (simp add: e'_def)
  have far: "\<forall>prev. psg_last_rank_advertised old = Some prev \<and> abs_rank_diff_gt_2 rank prev
           \<longrightarrow> psg_rank_stability_score e' = psg_rank_stability_score old * 0.8"
    by (simp add: e'_def)
  have near: "\<forall>prev. psg_last_rank_advertised old = Some prev \<and> \<not> abs_rank_diff_gt_2 rank prev
           \<longrightarrow> psg_rank_stability_score e' = min 1 (psg_rank_stability_score old * 1.05 + 0.05)"
    by (simp add: e'_def)
  have range: "0 \<le> psg_rank_stability_score old \<and> psg_rank_stability_score old \<le> 1
           \<longrightarrow> 0 \<le> psg_rank_stability_score e' \<and> psg_rank_stability_score e' \<le> 1"
  proof
    assume "0 \<le> psg_rank_stability_score old \<and> psg_rank_stability_score old \<le> 1"
    then have r: "0 \<le> psg_rank_stability_score old" "psg_rank_stability_score old \<le> 1"
      by simp_all
    show "0 \<le> psg_rank_stability_score e' \<and> psg_rank_stability_score e' \<le> 1"
      using stability_range [OF r] r by (simp add: e'_def split: option.splits)
  qed
  have last: "psg_last_rank_advertised e' = Some rank"
    by (simp add: e'_def)
  show ?thesis
    unfolding Let_def old_def [symmetric]
    by (intro exI [of _ e'] conjI) (fact stored ts len none far near range last)+
qed

lemma lia_entry_of_sim_psg:
  "lia_entry_of sim_psg 1 2 = (lia_default (- 60))\<lparr>psg_last_rank_advertised := Some (enat 3),
                    psg_dio_timestamps := [1, 2, 3, 4, 5]\<rparr>"
  "lia_entry_of sim_psg 1 4 = lia_default (- 60)"
  by (simp_all add: lia_entry_of_def lia_get_def sim_psg_def sim0_def node0_def
      random_uniform_def random_random_def)

text \<open>
  In \<open>sim_psg\<close>: neighbour 2 advertises rank 7 after rank 3 (score 1 becomes 0.8, the full
  window loses timestamp 1), or rank 4 after rank 3 (the score stays capped at 1);
  neighbour 4 advertises for the first time (the score stays 1).
\<close>

theorem lia_update_psg_from_dio_spec_witness:
  "(length (psg_dio_timestamps (lia_entry_of sim_psg 1 2)) \<le> 5 \<and>
    psg_last_rank_advertised (lia_entry_of sim_psg 1 2) = Some (enat 3) \<and>
    abs_rank_diff_gt_2 (enat 7) (enat 3) \<and> \<not> abs_rank_diff_gt_2 (enat 4) (enat 3) \<and>
    0 \<le> psg_rank_stability_score (lia_entry_of sim_psg 1 2) \<and>
    psg_rank_stability_score (lia_entry_of sim_psg 1 2) \<le> 1 \<and>
    psg_last_rank_advertised (lia_entry_of sim_psg 1 4) = None) \<and>
   (\<exists>e'. lia_data (nodes (lia_update_psg_from_dio sim_psg 1 2 (enat 7) 0) 1) 2 = Some e' \<and>
      psg_dio_timestamps e' = [2, 3, 4, 5, 10] \<and> psg_rank_stability_score e' = 0.8 \<and>
      psg_last_rank_advertised e' = Some (enat 7)) \<and>
   (\<exists>e'. lia_data (nodes (lia_update_psg_from_dio sim_psg 1 2 (enat 4) 0) 1) 2 = Some e' \<and>
      psg_dio_timestamps e' = [2, 3, 4, 5, 10] \<and> psg_rank_stability_score e' = 1) \<and>
   (\<exists>e'. lia_data (nodes (lia_update_psg_from_dio sim_psg 1 4 (enat 4) 0) 1) 4 = Some e' \<and>
      psg_dio_timestamps e' = [10] \<and> psg_rank_stability_score e' = 1)"
proof -
  have n: "now sim_psg = 10" by (simp add: sim_psg_def)
  have hyp: "length (psg_dio_timestamps (lia_entry_of sim_psg 1 2)) \<le> 5 \<and>
    psg_last_rank_advertised (lia_entry_of sim_psg 1 2) = Some (enat 3) \<and>
    abs_rank_diff_gt_2 (enat 7) (enat 3) \<and> \<not> abs_rank_diff_gt_2 (enat 4) (enat 3) \<and>
    0 \<le> psg_rank_stability_score (lia_entry_of sim_psg 1 2) \<and>
    psg_rank_stability_score (lia_entry_of sim_psg 1 2) \<le> 1 \<and>
    psg_last_rank_advertised (lia_entry_of sim_psg 1 4) = None"
    unfolding lia_entry_of_sim_psg by (simp add: lia_default_def)
  have a: "\<exists>e'. lia_data (nodes (lia_update_psg_from_dio sim_psg 1 2 (enat 7) 0) 1) 2 = Some e' \<and>
      psg_dio_timestamps e' = [2, 3, 4, 5, 10] \<and> psg_rank_stability_score e' = 0.8 \<and>
      psg_last_rank_advertised e' = Some (enat 7)"
    using lia_update_psg_from_dio_spec [of sim_psg 1 2 "enat 7" 0]
    unfolding Let_def lia_entry_of_sim_psg n by (auto simp add: lia_default_def)
  have b: "\<exists>e'. lia_data (nodes (lia_update_psg_from_dio sim_psg 1 2 (enat 4) 0) 1) 2 = Some e' \<and>
      psg_dio_timestamps e' = [2, 3, 4, 5, 10] \<and> psg_rank_stability_score e' = 1"
    using lia_update_psg_from_dio_spec [of sim_psg 1 2 "enat 4" 0]
    unfolding Let_def lia_entry_of_sim_psg n by (auto simp add: lia_default_def)
  have c: "\<exists>e'. lia_data (nodes (lia_update_psg_from_dio sim_psg 1 4 (enat 4) 0) 1) 4 = Some e' \<and>
      psg_dio_timestamps e' = [10] \<and> psg_rank_stability_score e' = 1"
    using lia_update_psg_from_dio_spec [of sim_psg 1 4 "enat 4" 0]
    unfolding Let_def lia_entry_of_sim_psg n by (auto simp add: lia_default_def)
  show ?thesis using hyp a b c by blast
qed

subsection \<open>Evaluation on concrete states\<close>

text \<open>The equations that evaluate a call of the advertisement handler on a concrete state.\<close>

lemmas eval_defs =
  handle_dio_def sdu_psg_select_parent_def lia_update_psg_from_dio_def
  lia_get_psg_parent_score_def lia_get_def lia_set_def consume_energy_def upd_node_def
  random_uniform_def random_random_def cost_map_get_def lia_default_def deque_append_def
  E_SDU_COMPUTE_def E_LIA_UPDATE_def E_RX_CTRL_def E_RX_PKT_def E_TX_CTRL_def E_TX_PKT_def
  PSG_CHILD_WEIGHTS_rank_def PSG_CHILD_WEIGHTS_stability_def PSG_CHILD_WEIGHTS_link_quality_def
  PSG_CHILD_WEIGHTS_change_penalty_def truthy_def id_or_def incr_def incr2_def Let_def
  sim0_def node0_def stats0_def dio_pkt_def Packet_def

subsection \<open>Parent selection\<close>

lemma parent_score_snd:
  "snd (lia_get_psg_parent_score s i k r) = snd (lia_get (consume_energy s i ''lia'' None) i k)"
proof -
  obtain entry s2 where g: "lia_get (consume_energy s i ''lia'' None) i k = (entry, s2)"
    by (cases "lia_get (consume_energy s i ''lia'' None) i k")
  show ?thesis
    unfolding lia_get_psg_parent_score_def Let_def g by simp
qed

lemma quiet_parent_score: "quiet s (snd (lia_get_psg_parent_score s i k r))"
  unfolding parent_score_snd
  by (rule quiet_trans [OF quiet_consume_energy quiet_lia_get])

lemma energy_ok_parent_score: "energy_ok s (snd (lia_get_psg_parent_score s i k r))"
  unfolding parent_score_snd
  by (rule energy_ok_trans [OF energy_ok_consume_energy energy_ok_lia_get])

lemma update_psg_snd:
  "\<exists>e. lia_update_psg_from_dio s i k r v
         = lia_set (snd (lia_get (consume_energy s i ''lia'' None) i k)) i k e"
proof -
  obtain entry s2 where g: "lia_get (consume_energy s i ''lia'' None) i k = (entry, s2)"
    by (cases "lia_get (consume_energy s i ''lia'' None) i k")
  show ?thesis
    unfolding lia_update_psg_from_dio_def Let_def g by (simp only: prod.case snd_conv) (rule exI, rule refl)
qed

lemma quiet_update_psg: "quiet s (lia_update_psg_from_dio s i k r v)"
proof -
  obtain e where e: "lia_update_psg_from_dio s i k r v
         = lia_set (snd (lia_get (consume_energy s i ''lia'' None) i k)) i k e"
    using update_psg_snd by blast
  show ?thesis
    unfolding e
    by (rule quiet_trans [OF quiet_trans [OF quiet_consume_energy quiet_lia_get] quiet_lia_set])
qed

lemma energy_ok_update_psg: "energy_ok s (lia_update_psg_from_dio s i k r v)"
proof -
  obtain e where e: "lia_update_psg_from_dio s i k r v
         = lia_set (snd (lia_get (consume_energy s i ''lia'' None) i k)) i k e"
    using update_psg_snd by blast
  show ?thesis
    unfolding e
    by (rule energy_ok_trans
        [OF energy_ok_trans [OF energy_ok_consume_energy energy_ok_lia_get] energy_ok_lia_set])
qed

lemma quiet_psg_loop: "quiet s (snd (psg_loop s i infos best mx))"
proof (induction infos arbitrary: s best mx)
  case Nil
  then show ?case by simp
next
  case (Cons c infos)
  obtain p r v where c: "c = (p, r, v)" by (cases c)
  obtain u s1 where g: "lia_get_psg_parent_score s i p r = (u, s1)"
    by (cases "lia_get_psg_parent_score s i p r")
  have q: "quiet s s1" using quiet_parent_score [of s i p r] g by simp
  show ?case
    using Cons.IH [of s1] Cons.IH [of s] q by (auto simp add: c g Let_def intro: quiet_trans)
qed

lemma energy_ok_psg_loop: "energy_ok s (snd (psg_loop s i infos best mx))"
proof (induction infos arbitrary: s best mx)
  case Nil
  then show ?case by simp
next
  case (Cons c infos)
  obtain p r v where c: "c = (p, r, v)" by (cases c)
  obtain u s1 where g: "lia_get_psg_parent_score s i p r = (u, s1)"
    by (cases "lia_get_psg_parent_score s i p r")
  have q: "energy_ok s s1" using energy_ok_parent_score [of s i p r] g by simp
  show ?case
    using Cons.IH [of s1] Cons.IH [of s] q by (auto simp add: c g Let_def intro: energy_ok_trans)
qed

text \<open>
  The state before the loop of \<open>sdu_psg_select_parent\<close>, with the initial best parent
  and utility: the current parent is scored if it is a neighbour.
\<close>

lemma select_parent_shape:
  assumes "infos \<noteq> []"
  shows "\<exists>best0 max0 s2 s3 st.
           quiet s s2 \<and> energy_ok s s2 \<and>
           (best0 = None \<or> (best0 = rpl_parent_id (nodes s i) \<and>
              (\<exists>p. best0 = Some p \<and> p \<in> set (neighbors (nodes s i))))) \<and>
           s3 = snd (psg_loop s2 i infos best0 max0) \<and>
           fst (sdu_psg_select_parent s i infos) = fst (fst (psg_loop s2 i infos best0 max0)) \<and>
           snd (sdu_psg_select_parent s i infos) = s3\<lparr>STATS := st\<rparr> \<and>
           rpl_parent_changes st i = rpl_parent_changes (STATS s3) i +
              (if fst (sdu_psg_select_parent s i infos) \<noteq> rpl_parent_id (nodes s i)
                  \<and> fst (sdu_psg_select_parent s i infos) \<noteq> None then 1 else 0)"
proof -
  define s1 where "s1 = consume_energy s i ''sdu'' None"
  have q1: "quiet s s1" "energy_ok s s1"
    unfolding s1_def by (rule quiet_consume_energy, rule energy_ok_consume_energy)
  define pre where "pre =
     (case rpl_parent_id (nodes s1 i) of
        None \<Rightarrow> ((None, NegInf), s1)
      | Some p \<Rightarrow>
          if p \<in> set (neighbors (nodes s1 i))
          then (case lia_get_psg_parent_score s1 i p (rpl_rank (nodes s1 p)) of
                  (u, s') \<Rightarrow> ((Some p, u), s'))
          else ((None, NegInf), s1))"
  obtain best0 max0 s2 where pre: "pre = ((best0, max0), s2)"
    by (metis prod.exhaust)
  have same: "rpl_parent_id (nodes s1 i) = rpl_parent_id (nodes s i)"
    "neighbors (nodes s1 i) = neighbors (nodes s i)"
    by (simp_all add: s1_def)
  have q2: "quiet s1 s2 \<and> energy_ok s1 s2 \<and>
            (best0 = None \<or> (best0 = rpl_parent_id (nodes s i) \<and>
              (\<exists>p. best0 = Some p \<and> p \<in> set (neighbors (nodes s i)))))"
  proof (cases "rpl_parent_id (nodes s1 i)")
    case None
    then show ?thesis using pre by (simp add: pre_def)
  next
    case (Some p)
    show ?thesis
    proof (cases "p \<in> set (neighbors (nodes s1 i))")
      case False
      then show ?thesis using pre Some by (simp add: pre_def)
    next
      case True
      obtain u s' where g: "lia_get_psg_parent_score s1 i p (rpl_rank (nodes s1 p)) = (u, s')"
        by (metis prod.exhaust)
      have "quiet s1 s'" "energy_ok s1 s'"
        using quiet_parent_score [of s1 i p "rpl_rank (nodes s1 p)"]
          energy_ok_parent_score [of s1 i p "rpl_rank (nodes s1 p)"] g by simp_all
      then show ?thesis
        using pre Some True g same by (auto simp add: pre_def)
    qed
  qed
  obtain best mx s3 where l: "psg_loop s2 i infos best0 max0 = ((best, mx), s3)"
    by (metis prod.exhaust)
  have q3: "quiet s2 s3" using quiet_psg_loop [of s2 i infos best0 max0] l by simp
  have "quiet s s3" using q1(1) q2 q3 by (blast intro: quiet_trans)
  then have par: "rpl_parent_id (nodes s3 i) = rpl_parent_id (nodes s i)"
    by (simp add: quiet_def)
  define s4 where "s4 = (if best \<noteq> rpl_parent_id (nodes s3 i) \<and> best \<noteq> None
                         then s3\<lparr>STATS := (STATS s3)\<lparr>rpl_parent_changes :=
                                incr (rpl_parent_changes (STATS s3)) i\<rparr>\<rparr>
                         else s3)"
  define st where "st = (STATS s4)\<lparr>sdu_psg_choices :=
                           incr2 (sdu_psg_choices (STATS s4)) i (id_or best ''None'')\<rparr>"
  have res: "sdu_psg_select_parent s i infos = (best, s4\<lparr>STATS := st\<rparr>)"
    using assms pre l
    unfolding sdu_psg_select_parent_def Let_def s1_def [symmetric] pre_def [symmetric]
      s4_def st_def
    by simp
  have s4: "s4\<lparr>STATS := st\<rparr> = s3\<lparr>STATS := st\<rparr>"
    by (simp add: s4_def)
  have cnt: "rpl_parent_changes st i = rpl_parent_changes (STATS s3) i +
              (if best \<noteq> rpl_parent_id (nodes s i) \<and> best \<noteq> None then 1 else 0)"
    by (simp add: st_def s4_def par incr_def)
  have "quiet s s2" "energy_ok s s2"
    using q1 q2 by (blast intro: quiet_trans energy_ok_trans)+
  then show ?thesis
    using q2 l res s4 cnt by (intro exI [of _ best0] exI [of _ max0] exI [of _ s2]
        exI [of _ s3] exI [of _ st]) simp
qed

lemma select_parent_single:
  assumes "fst (sdu_psg_select_parent s i [(p, r, v)]) = Some p"
  shows "r < rpl_rank (nodes s i) \<or>
         (rpl_parent_id (nodes s i) = Some p \<and> p \<in> set (neighbors (nodes s i)))"
proof -
  obtain best0 max0 s2 where
    q: "quiet s s2" and
    b: "best0 = None \<or> (best0 = rpl_parent_id (nodes s i) \<and>
              (\<exists>p. best0 = Some p \<and> p \<in> set (neighbors (nodes s i))))" and
    f: "fst (sdu_psg_select_parent s i [(p, r, v)]) = fst (fst (psg_loop s2 i [(p, r, v)] best0 max0))"
    using select_parent_shape [of "[(p, r, v)]" s i] by blast
  have rank: "rpl_rank (nodes s2 i) = rpl_rank (nodes s i)"
    using q by (simp add: quiet_def)
  show ?thesis
  proof (cases "r < rpl_rank (nodes s i)")
    case True
    then show ?thesis by simp
  next
    case False
    then have "fst (fst (psg_loop s2 i [(p, r, v)] best0 max0)) = best0"
      by (simp add: rank not_less)
    with f assms have "best0 = Some p" by simp
    with b show ?thesis by auto
  qed
qed

subsection \<open>Adoption of a parent in \<open>handle_dio\<close>\<close>

text \<open>
  Claim C1, as the code has it. When \<open>handle_dio\<close> adopts the sender of an advertisement
  (\<open>sdu_psg_select_parent\<close> returns the sender, whose id is truthy), the node's parent is
  the sender and its rank is the advertised rank plus 1. The advertised rank was strictly
  less than the node's rank at evaluation time unless the sender already was the node's
  parent and a neighbour: a current parent is kept whatever rank it advertises.
\<close>

theorem handle_dio_adoption:
  assumes "pdata pkt = DioData r v"
    and "is_attacker_type (nodes s i) \<noteq> Some ''rpl_rank''"
    and "fst (sdu_psg_select_parent (lia_update_psg_from_dio s i sender r v) i [(sender, r, v)])
           = Some sender"
    and "sender \<noteq> 0"
  shows "rpl_parent_id (nodes (snd (handle_dio s i pkt sender)) i) = Some sender \<and>
         rpl_rank (nodes (snd (handle_dio s i pkt sender)) i) = r + 1 \<and>
         (r < rpl_rank (nodes s i) \<or>
          (rpl_parent_id (nodes s i) = Some sender \<and> sender \<in> set (neighbors (nodes s i))))"
proof -
  define s1 where "s1 = lia_update_psg_from_dio s i sender r v"
  have q: "quiet s s1"
    unfolding s1_def by (rule quiet_update_psg)
  have same: "is_attacker_type (nodes s1 i) = is_attacker_type (nodes s i)"
    "rpl_rank (nodes s1 i) = rpl_rank (nodes s i)"
    "rpl_parent_id (nodes s1 i) = rpl_parent_id (nodes s i)"
    "neighbors (nodes s1 i) = neighbors (nodes s i)"
    using q by (simp_all add: quiet_def)
  obtain s2 where sel: "sdu_psg_select_parent s1 i [(sender, r, v)] = (Some sender, s2)"
    using assms(3) unfolding s1_def [symmetric]
    by (cases "sdu_psg_select_parent s1 i [(sender, r, v)]") simp
  have why: "r < rpl_rank (nodes s i) \<or>
          (rpl_parent_id (nodes s i) = Some sender \<and> sender \<in> set (neighbors (nodes s i)))"
    using select_parent_single [of s1 i sender r v] sel by (simp add: same)
  have after: "nodes (snd (handle_dio s i pkt sender)) i
                 = (nodes s2 i)\<lparr>rpl_parent_id := Some sender, rpl_rank := r + 1\<rparr>"
    using assms(1,2,4)
    unfolding handle_dio_def Let_def
    by (simp add: same [unfolded s1_def] sel [unfolded s1_def] truthy_def upd_node_def)
  show ?thesis
    using why by (simp add: after)
qed

text \<open>
  Fresh node 1 of \<open>sim_dio\<close> hears neighbour 2 advertise rank 3: it adopts 2 and takes
  rank 4.
\<close>

theorem handle_dio_adoption_witness:
  "pdata (dio_pkt 2 (enat 3)) = DioData (enat 3) 0 \<and>
   is_attacker_type (nodes sim_dio 1) \<noteq> Some ''rpl_rank'' \<and>
   fst (sdu_psg_select_parent (lia_update_psg_from_dio sim_dio 1 2 (enat 3) 0) 1 [(2, enat 3, 0)])
     = Some 2 \<and>
   (2 :: nat) \<noteq> 0 \<and>
   rpl_parent_id (nodes (snd (handle_dio sim_dio 1 (dio_pkt 2 (enat 3)) 2)) 1) = Some 2 \<and>
   rpl_rank (nodes (snd (handle_dio sim_dio 1 (dio_pkt 2 (enat 3)) 2)) 1) = enat 3 + 1 \<and>
   enat 3 < rpl_rank (nodes sim_dio 1)"
proof -
  have h1: "pdata (dio_pkt 2 (enat 3)) = DioData (enat 3) 0"
    by (simp add: dio_pkt_def Packet_def)
  have h2: "is_attacker_type (nodes sim_dio 1) \<noteq> Some ''rpl_rank''"
    by (simp add: sim_dio_def sim0_def node0_def)
  have h3: "fst (sdu_psg_select_parent (lia_update_psg_from_dio sim_dio 1 2 (enat 3) 0) 1
              [(2, enat 3, 0)]) = Some 2"
    by (simp add: eval_defs sim_dio_def)
  have h4: "(2 :: nat) \<noteq> 0" by simp
  have r: "enat 3 < rpl_rank (nodes sim_dio 1)"
    by (simp add: sim_dio_def sim0_def node0_def)
  show ?thesis
    using handle_dio_adoption [OF h1 h2 h3 h4] h1 h2 h3 r by simp
qed

text \<open>
  Claim C1 as stated fails. In \<open>sim_parent\<close> node 1 has rank 2 and parent 2; neighbour 2
  advertises rank 5. \<open>sdu_psg_select_parent\<close> returns 2, \<open>handle_dio\<close> adopts it and sets
  rank 6, and the advertised rank 5 was not less than the node's rank 2.
\<close>

theorem handle_dio_adoption_counterexample:
  "fst (sdu_psg_select_parent (lia_update_psg_from_dio sim_parent 1 2 (enat 5) 0) 1
          [(2, enat 5, 0)]) = Some 2 \<and>
   rpl_parent_id (nodes (snd (handle_dio sim_parent 1 (dio_pkt 2 (enat 5)) 2)) 1) = Some 2 \<and>
   rpl_rank (nodes (snd (handle_dio sim_parent 1 (dio_pkt 2 (enat 5)) 2)) 1) = enat 5 + 1 \<and>
   rpl_rank (nodes sim_parent 1) = enat 2 \<and>
   \<not> enat 5 < rpl_rank (nodes sim_parent 1)"
  by (simp add: eval_defs sim_parent_def)

subsection \<open>Counting parent changes\<close>

text \<open>
  Claim C4 at a failing input. Fresh node 1 of \<open>sim_dio\<close> has no parent and no recorded
  parent change. It processes one advertisement of neighbour 2, selects and adopts 2, and
  its parent-change counter is 2: \<open>sdu_psg_select_parent\<close> and \<open>handle_dio\<close> each count
  the same change.
\<close>

theorem handle_dio_counts_change_twice:
  "rpl_parent_id (nodes sim_dio 1) = None \<and>
   rpl_parent_changes (STATS sim_dio) 1 = 0 \<and>
   fst (sdu_psg_select_parent (lia_update_psg_from_dio sim_dio 1 2 (enat 3) 0) 1 [(2, enat 3, 0)])
     = Some 2 \<and>
   rpl_parent_changes (STATS (snd (sdu_psg_select_parent
      (lia_update_psg_from_dio sim_dio 1 2 (enat 3) 0) 1 [(2, enat 3, 0)]))) 1 = 1 \<and>
   rpl_parent_id (nodes (snd (handle_dio sim_dio 1 (dio_pkt 2 (enat 3)) 2)) 1) = Some 2 \<and>
   rpl_parent_changes (STATS (snd (handle_dio sim_dio 1 (dio_pkt 2 (enat 3)) 2))) 1 = 2"
  by (simp add: eval_defs sim_dio_def)

subsection \<open>Data-plane handling\<close>

text \<open>The equations that evaluate a call of the data-plane handler on a concrete state.\<close>

lemmas eval_data_defs =
  handle_data_packet_def candidate_fw_ids_def sdu_pfg_select_forwarder_def
  lia_get_pfg_p_cooperate_def lia_get_def lia_set_def consume_energy_def upd_node_def
  random_uniform_def random_random_def cost_map_get_def lia_default_def lia_counts_def np_clip_def
  E_SDU_COMPUTE_def E_LIA_UPDATE_def E_RX_CTRL_def E_RX_PKT_def E_TX_CTRL_def E_TX_PKT_def
  PFG_SENDER_PAYOFFS_Send_Cooperate_def PFG_SENDER_PAYOFFS_Send_Defect_def
  PFG_SENDER_PAYOFFS_Hold_def truthy_def id_or_def incr_def incr2_def Let_def
  sim0_def node0_def stats0_def data_pkt_def Packet_def

lemma select_forwarder_frame:
  "packets_received_dest (STATS (snd (sdu_pfg_select_forwarder s i pkt cs)))
     = packets_received_dest (STATS s)"
  "packets_dropped_blackhole (STATS (snd (sdu_pfg_select_forwarder s i pkt cs)))
     = packets_dropped_blackhole (STATS s)"
  "packets_dropped_selfish (STATS (snd (sdu_pfg_select_forwarder s i pkt cs)))
     = packets_dropped_selfish (STATS s)"
  "packets_dropped_other (STATS (snd (sdu_pfg_select_forwarder s i pkt cs)))
     = packets_dropped_other (STATS s)"
  "spawned (snd (sdu_pfg_select_forwarder s i pkt cs)) = spawned s"
proof -
  define s1 where "s1 = consume_energy s i ''sdu'' None"
  obtain r s2 where l: "pfg_loop s1 i cs None PFG_SENDER_PAYOFFS_Hold ''Hold'' = (r, s2)"
    by (metis prod.exhaust)
  have "quiet s1 s2" using quiet_pfg_loop [of s1 i cs None PFG_SENDER_PAYOFFS_Hold "''Hold''"] l
    by simp
  then have q: "quiet s s2"
    using quiet_consume_energy [of s i "''sdu''" None] unfolding s1_def by (rule quiet_trans [rotated])
  have q1: "quiet s s1" unfolding s1_def by (rule quiet_consume_energy)
  have "\<exists>st. snd (sdu_pfg_select_forwarder s i pkt cs) = s1 \<or>
        snd (sdu_pfg_select_forwarder s i pkt cs)
          = s2\<lparr>STATS := (STATS s2)\<lparr>sdu_pfg_choices := st\<rparr>\<rparr>"
    using l unfolding sdu_pfg_select_forwarder_def Let_def s1_def [symmetric]
    by (auto split: prod.splits)
  then obtain st where "snd (sdu_pfg_select_forwarder s i pkt cs) = s1 \<or>
        snd (sdu_pfg_select_forwarder s i pkt cs)
          = s2\<lparr>STATS := (STATS s2)\<lparr>sdu_pfg_choices := st\<rparr>\<rparr>"
    by blast
  then show
    "packets_received_dest (STATS (snd (sdu_pfg_select_forwarder s i pkt cs)))
       = packets_received_dest (STATS s)"
    "packets_dropped_blackhole (STATS (snd (sdu_pfg_select_forwarder s i pkt cs)))
       = packets_dropped_blackhole (STATS s)"
    "packets_dropped_selfish (STATS (snd (sdu_pfg_select_forwarder s i pkt cs)))
       = packets_dropped_selfish (STATS s)"
    "packets_dropped_other (STATS (snd (sdu_pfg_select_forwarder s i pkt cs)))
       = packets_dropped_other (STATS s)"
    "spawned (snd (sdu_pfg_select_forwarder s i pkt cs)) = spawned s"
    using q q1 by (auto simp add: quiet_def)
qed

text \<open>
  Claim C2, as the code has it. When a node that is not the destination handles a DATA
  packet and drops it (returns \<open>False\<close>), the drop is recorded by incrementing
  \<open>packets_dropped_selfish\<close> by exactly 1 and nothing is sent on, whatever the attacker
  variant of the node or of its candidates. The handling never changes
  \<open>packets_dropped_blackhole\<close>, \<open>packets_dropped_other\<close> or \<open>packets_received_dest\<close>.
\<close>

theorem handle_data_packet_drop:
  assumes "Node i \<noteq> dest_id pkt"
  shows "packets_dropped_blackhole (STATS (snd (handle_data_packet s i pkt sender)))
           = packets_dropped_blackhole (STATS s) \<and>
         packets_dropped_other (STATS (snd (handle_data_packet s i pkt sender)))
           = packets_dropped_other (STATS s) \<and>
         packets_received_dest (STATS (snd (handle_data_packet s i pkt sender)))
           = packets_received_dest (STATS s) \<and>
         (\<not> fst (handle_data_packet s i pkt sender) \<longrightarrow>
            packets_dropped_selfish (STATS (snd (handle_data_packet s i pkt sender)))
              = packets_dropped_selfish (STATS s) + 1 \<and>
            spawned (snd (handle_data_packet s i pkt sender)) = spawned s)"
proof -
  obtain nh act s1 where
    f: "sdu_pfg_select_forwarder s i pkt (candidate_fw_ids s i) = ((nh, act), s1)"
    by (metis prod.exhaust)
  have fr: "packets_received_dest (STATS s1) = packets_received_dest (STATS s)"
    "packets_dropped_blackhole (STATS s1) = packets_dropped_blackhole (STATS s)"
    "packets_dropped_selfish (STATS s1) = packets_dropped_selfish (STATS s)"
    "packets_dropped_other (STATS s1) = packets_dropped_other (STATS s)"
    "spawned s1 = spawned s"
    using select_forwarder_frame [of s i pkt "candidate_fw_ids s i"] f by simp_all
  show ?thesis
    using assms by (simp add: handle_data_packet_def f fr split: option.splits)
qed

text \<open>
  In \<open>sim_blackhole\<close> node 1, not the destination, has the blackhole node 2 as only
  candidate and drops the packet.
\<close>

theorem handle_data_packet_drop_witness:
  "Node 1 \<noteq> dest_id data_pkt \<and>
   \<not> fst (handle_data_packet sim_blackhole 1 data_pkt 3) \<and>
   packets_dropped_selfish (STATS (snd (handle_data_packet sim_blackhole 1 data_pkt 3)))
     = packets_dropped_selfish (STATS sim_blackhole) + 1 \<and>
   packets_dropped_blackhole (STATS (snd (handle_data_packet sim_blackhole 1 data_pkt 3)))
     = packets_dropped_blackhole (STATS sim_blackhole)"
proof -
  have h: "Node 1 \<noteq> dest_id data_pkt"
    by (simp add: data_pkt_def Packet_def)
  have d: "\<not> fst (handle_data_packet sim_blackhole 1 data_pkt 3)"
    by (simp add: eval_data_defs sim_blackhole_def)
  show ?thesis
    using handle_data_packet_drop [OF h, of sim_blackhole 3] h d by simp
qed

text \<open>
  Claim C2 as stated fails. In \<open>sim_blackhole\<close> the only forwarder candidate of node 1 is
  the blackhole node 2. Node 1 drops the DATA packet, and so does the blackhole node 2
  when it handles the packet itself; both drops are counted as selfish and the blackhole
  counter stays 0.
\<close>

theorem handle_data_packet_blackhole_counterexample:
  "ptype data_pkt = ''DATA'' \<and> Node 1 \<noteq> dest_id data_pkt \<and>
   candidate_fw_ids sim_blackhole 1 = [2] \<and>
   is_attacker_type (nodes sim_blackhole 2) = Some ''blackhole'' \<and>
   fst (handle_data_packet sim_blackhole 1 data_pkt 3) = False \<and>
   packets_dropped_blackhole (STATS (snd (handle_data_packet sim_blackhole 1 data_pkt 3))) = 0 \<and>
   packets_dropped_selfish (STATS (snd (handle_data_packet sim_blackhole 1 data_pkt 3))) = 1 \<and>
   fst (handle_data_packet sim_blackhole 2 data_pkt 1) = False \<and>
   packets_dropped_blackhole (STATS (snd (handle_data_packet sim_blackhole 2 data_pkt 1))) = 0 \<and>
   packets_dropped_selfish (STATS (snd (handle_data_packet sim_blackhole 2 data_pkt 1))) = 1"
  by (simp add: eval_data_defs sim_blackhole_def)

text \<open>
  Claim C3 at a failing input. In \<open>sim_dead\<close> the live neighbours of node 1 are \<open>[2]\<close>, but
  the candidates that \<open>handle_data_packet\<close> passes to the forwarder selection are all its
  neighbours \<open>[2, 3]\<close>; the inert node 3 is selected and the packet is sent to it.
\<close>

theorem handle_data_packet_dead_candidate:
  "\<not> alive (nodes sim_dead 3) \<and>
   filter (\<lambda>k. alive (nodes sim_dead k)) (neighbors (nodes sim_dead 1)) = [2] \<and>
   candidate_fw_ids sim_dead 1 = [2, 3] \<and>
   fst (sdu_pfg_select_forwarder sim_dead 1 data_pkt (candidate_fw_ids sim_dead 1))
     = (Some 3, ''Send'') \<and>
   fst (handle_data_packet sim_dead 1 data_pkt 2) = True \<and>
   spawned (snd (handle_data_packet sim_dead 1 data_pkt 2))
     = [SendMessage 1 3 (data_pkt\<lparr>path := path data_pkt @ [1]\<rparr>)]"
  by (simp add: eval_data_defs sim_dead_def)

subsection \<open>Inert nodes\<close>

lemma receive_message_dead:
  "\<not> alive (nodes s i) \<Longrightarrow> receive_message s i pkt k = (Returned (Some False), s)"
  by (simp add: receive_message_def)

lemma broadcast_dio_dead: "\<not> alive (nodes s i) \<Longrightarrow> broadcast_dio s i = s"
  by (simp add: broadcast_dio_def)

text \<open>The equations that evaluate the transport of an advertisement on a concrete state.\<close>

lemmas eval_send_defs =
  broadcast_dio_def send_message_start_def send_message_resume_def receive_message_def
  py_int_def str_int_def

lemma broadcast_dio_frame:
  "j \<noteq> i \<Longrightarrow> nodes (broadcast_dio s i) j = nodes s j"
  "rng (broadcast_dio s i) = rng s"
  "STATS (broadcast_dio s i) = STATS s"
  "energy (nodes (broadcast_dio s i) j) = energy (nodes s j)"
  "alive (nodes (broadcast_dio s i) j) = alive (nodes s j)"
  by (simp_all add: broadcast_dio_def upd_node_def Let_def)

lemma send_message_start_snd:
  "snd (send_message_start s i k pkt) =
     (consume_energy s i (if ptype pkt \<noteq> ''DATA'' then ''tx_ctrl'' else ''tx_pkt'') None)
       \<lparr>STATS := (STATS (consume_energy s i
                    (if ptype pkt \<noteq> ''DATA'' then ''tx_ctrl'' else ''tx_pkt'') None))
            \<lparr>control_packets_sent := incr2 (control_packets_sent (STATS s)) i (ptype pkt)\<rparr>,
        rng_pos := Suc (rng_pos s)\<rparr>"
  by (simp add: send_message_start_def random_uniform_def random_random_def Let_def)

lemma deliver_fresh:
  assumes "nodes s 3 = node0\<lparr>neighbors := [1]\<rparr>" and "rng s = (\<lambda>_. 1 / 2)"
  shows "fst (send_message_resume s 1 3 dio_1) = Some (Returned None) \<and>
         rpl_parent_id (nodes (snd (send_message_resume s 1 3 dio_1)) 3) = Some 1 \<and>
         rpl_rank (nodes (snd (send_message_resume s 1 3 dio_1)) 3) = enat 2 \<and>
         energy (nodes (snd (send_message_resume s 1 3 dio_1)) 3) < 100"
  using assms by (simp add: eval_send_defs eval_defs dio_1_def one_enat_def)

text \<open>
  Claim C8 at a failing input. Node 1 of \<open>sim_tx\<close> broadcasts an advertisement, which
  creates one \<open>_send_message\<close> generator per neighbour. The first one started depletes the
  node: it is marked inert. The second one starts after that, on the inert node: it is
  counted as a sent control packet and, after its delay, delivered to node 3, which pays
  for the reception and adopts the inert node 1 as parent.
\<close>

theorem inert_node_still_sends:
  "let s1 = broadcast_dio sim_tx 1;
       s2 = snd (send_message_start s1 1 2 dio_1);
       s3 = snd (send_message_start s2 1 3 dio_1);
       r = send_message_resume s3 1 3 dio_1
   in alive (nodes sim_tx 1) \<and>
      spawned s1 = [SendMessage 1 2 dio_1, SendMessage 1 3 dio_1] \<and>
      \<not> alive (nodes s2 1) \<and>
      control_packets_sent (STATS s2) 1 ''DIO'' = 1 \<and>
      \<not> alive (nodes s3 1) \<and>
      control_packets_sent (STATS s3) 1 ''DIO'' = 2 \<and>
      fst r = Some (Returned None) \<and>
      rpl_parent_id (nodes (snd r) 3) = Some 1 \<and>
      energy (nodes (snd r) 3) < energy (nodes s3 3)"
proof -
  define s1 where "s1 = broadcast_dio sim_tx 1"
  define s2 where "s2 = snd (send_message_start s1 1 2 dio_1)"
  define s3 where "s3 = snd (send_message_start s2 1 3 dio_1)"
  have a0: "alive (nodes sim_tx 1)"
    by (simp add: sim_tx_def sim0_def node0_def)
  have sp: "spawned s1 = [SendMessage 1 2 dio_1, SendMessage 1 3 dio_1]"
    unfolding s1_def by (simp add: eval_send_defs eval_defs dio_1_def sim_tx_def)
  have p: "ptype dio_1 = ''DIO''"
    by (simp add: dio_1_def Packet_def)
  have e1: "energy (nodes s1 1) = 0.005" "alive (nodes s1 1)"
    "control_packets_sent (STATS s1) = (\<lambda>_ _. 0)"
    unfolding s1_def broadcast_dio_frame by (simp_all add: sim_tx_def sim0_def node0_def stats0_def)
  have d2: "\<not> alive (nodes s2 1)"
    unfolding s2_def send_message_start_snd using e1
    by (simp add: p consume_energy_def upd_node_def cost_map_get_def E_TX_CTRL_def Let_def)
  have c2: "control_packets_sent (STATS s2) 1 ''DIO'' = 1"
    unfolding s2_def send_message_start_snd using e1
    by (simp add: p incr2_def incr_def)
  have d3: "\<not> alive (nodes s3 1)"
    unfolding s3_def send_message_start_snd using d2
    by (simp add: consume_energy_dead)
  have c3: "control_packets_sent (STATS s3) 1 ''DIO'' = 2"
    unfolding s3_def send_message_start_snd using c2
    by (simp add: p incr2_def incr_def)
  have n3: "nodes s3 3 = node0\<lparr>neighbors := [1]\<rparr>"
    unfolding s3_def s2_def s1_def send_message_start_snd
    by (simp add: broadcast_dio_frame sim_tx_def sim0_def)
  have r3: "rng s3 = (\<lambda>_. 1 / 2)"
    unfolding s3_def s2_def s1_def send_message_start_snd
    by (simp add: broadcast_dio_frame sim_tx_def sim0_def)
  have e3: "energy (nodes s3 3) = 100"
    by (simp add: n3 node0_def)
  show ?thesis
    unfolding Let_def s1_def [symmetric] s2_def [symmetric] s3_def [symmetric]
    using a0 sp d2 c2 d3 c3 deliver_fresh [OF n3 r3] by (simp add: e3)
qed

subsection \<open>Energy along a run\<close>

lemma energy_ok_same_nodes: "nodes s2 = nodes s1 \<Longrightarrow> energy_ok s s1 \<Longrightarrow> energy_ok s s2"
  by (simp add: energy_ok_def)

lemma energy_ok_upd_node:
  "energy (f (nodes s i)) = energy (nodes s i) \<Longrightarrow> alive (f (nodes s i)) = alive (nodes s i) \<Longrightarrow>
   energy_ok s (upd_node s i f)"
  by (simp add: energy_ok_def upd_node_def)

lemma energy_ok_lia_update_pfg: "energy_ok s (snd (lia_update_pfg s i k outcome))"
proof -
  define s1 where "s1 = consume_energy s i ''lia'' None"
  obtain entry s2 where g: "lia_get s1 i k = (entry, s2)"
    by (metis prod.exhaust)
  have a: "energy_ok s s2"
    using energy_ok_trans [OF energy_ok_consume_energy energy_ok_lia_get, of s i "''lia''" i k] g
    by (simp add: s1_def)
  have "\<exists>e. nodes (snd (lia_update_pfg s i k outcome)) = nodes (lia_set s2 i k e)"
    unfolding lia_update_pfg_def Let_def s1_def [symmetric] g
    by (cases outcome) auto
  then obtain e where e: "nodes (snd (lia_update_pfg s i k outcome)) = nodes (lia_set s2 i k e)"
    by blast
  have "energy_ok s (lia_set s2 i k e)"
    by (rule energy_ok_trans [OF a energy_ok_lia_set])
  then show ?thesis by (rule energy_ok_same_nodes [OF e])
qed

lemma energy_ok_select_forwarder: "energy_ok s (snd (sdu_pfg_select_forwarder s i pkt cs))"
proof -
  define s1 where "s1 = consume_energy s i ''sdu'' None"
  have a: "energy_ok s s1" unfolding s1_def by (rule energy_ok_consume_energy)
  obtain r s2 where l: "pfg_loop s1 i cs None PFG_SENDER_PAYOFFS_Hold ''Hold'' = (r, s2)"
    by (metis prod.exhaust)
  have b: "energy_ok s s2"
    using energy_ok_trans [OF a energy_ok_pfg_loop, of i cs None PFG_SENDER_PAYOFFS_Hold "''Hold''"] l
    by simp
  have "nodes (snd (sdu_pfg_select_forwarder s i pkt cs)) = nodes s1 \<or>
        nodes (snd (sdu_pfg_select_forwarder s i pkt cs)) = nodes s2"
    using l unfolding sdu_pfg_select_forwarder_def Let_def s1_def [symmetric]
    by (auto split: prod.splits)
  then show ?thesis using a b energy_ok_same_nodes by blast
qed

lemma energy_ok_select_parent: "energy_ok s (snd (sdu_psg_select_parent s i infos))"
proof (cases "infos = []")
  case True
  then show ?thesis
    by (simp add: sdu_psg_select_parent_def energy_ok_consume_energy)
next
  case False
  from select_parent_shape [OF False, of s i]
  obtain best0 max0 s2 s3 st where
    a: "energy_ok s s2" and
    s3: "s3 = snd (psg_loop s2 i infos best0 max0)" and
    r: "snd (sdu_psg_select_parent s i infos) = s3\<lparr>STATS := st\<rparr>"
    by blast
  have "energy_ok s s3"
    unfolding s3 by (rule energy_ok_trans [OF a energy_ok_psg_loop])
  then show ?thesis
    unfolding r by (rule energy_ok_same_nodes [rotated]) simp
qed

lemma energy_ok_irg: "energy_ok s (snd (sdu_irg_decide_report s i k b))"
proof -
  define s1 where "s1 = consume_energy s i ''sdu'' None"
  obtain entry s2 where g: "lia_get s1 i k = (entry, s2)"
    by (metis prod.exhaust)
  have a: "energy_ok s s2"
    using energy_ok_trans [OF energy_ok_consume_energy energy_ok_lia_get, of s i "''sdu''" i k] g
    by (simp add: s1_def)
  have "nodes (snd (sdu_irg_decide_report s i k b)) = nodes s2"
    unfolding sdu_irg_decide_report_def Let_def s1_def [symmetric] g
    by (simp add: random_random_def)
  then show ?thesis using a by (rule energy_ok_same_nodes)
qed

lemma energy_ok_handle_dio: "energy_ok s (snd (handle_dio s i pkt k))"
proof (cases "pdata pkt")
  case (Payload x)
  then show ?thesis by (simp add: handle_dio_def)
next
  case (DioData r v)
  define s1 where "s1 = lia_update_psg_from_dio s i k r v"
  have a: "energy_ok s s1" unfolding s1_def by (rule energy_ok_update_psg)
  obtain np s2 where sel: "sdu_psg_select_parent s1 i [(k, r, v)] = (np, s2)"
    by (metis prod.exhaust)
  have b: "energy_ok s s2"
    using energy_ok_trans [OF a energy_ok_select_parent, of i "[(k, r, v)]"] sel by simp
  have c: "energy_ok s (upd_node s2 i (\<lambda>n. n\<lparr>rpl_parent_id := np, rpl_rank := r + 1\<rparr>))"
    by (rule energy_ok_trans [OF b energy_ok_upd_node]) simp_all
  have "nodes (snd (handle_dio s i pkt k)) = nodes s1 \<or>
        nodes (snd (handle_dio s i pkt k)) = nodes s2 \<or>
        nodes (snd (handle_dio s i pkt k))
          = nodes (upd_node s2 i (\<lambda>n. n\<lparr>rpl_parent_id := np, rpl_rank := r + 1\<rparr>))"
    unfolding handle_dio_def Let_def DioData
    by (simp add: s1_def [symmetric] sel upd_node_def)
  then show ?thesis using a b c energy_ok_same_nodes by blast
qed

lemma energy_ok_handle_data_packet: "energy_ok s (snd (handle_data_packet s i pkt k))"
proof -
  obtain r s1 where f: "sdu_pfg_select_forwarder s i pkt (candidate_fw_ids s i) = (r, s1)"
    by (metis prod.exhaust)
  have a: "energy_ok s s1"
    using energy_ok_select_forwarder [of s i pkt "candidate_fw_ids s i"] f by simp
  have "nodes (snd (handle_data_packet s i pkt k)) = nodes s \<or>
        nodes (snd (handle_data_packet s i pkt k)) = nodes s1"
    unfolding handle_data_packet_def f by (auto split: prod.splits option.splits)
  then show ?thesis using a energy_ok_refl energy_ok_same_nodes by blast
qed

lemma energy_ok_receive_message: "energy_ok s (snd (receive_message s i pkt k))"
proof (cases "alive (nodes s i)")
  case False
  then show ?thesis by (simp add: receive_message_dead)
next
  case True
  define s1 where
    "s1 = consume_energy s i (if ptype pkt \<noteq> ''DATA'' then ''rx_ctrl'' else ''rx_pkt'') None"
  have a: "energy_ok s s1" unfolding s1_def by (rule energy_ok_consume_energy)
  have b: "energy_ok s (snd (handle_dio s1 i pkt k))"
    by (rule energy_ok_trans [OF a energy_ok_handle_dio])
  have c: "energy_ok s (snd (handle_data_packet s1 i pkt k))"
    by (rule energy_ok_trans [OF a energy_ok_handle_data_packet])
  have "snd (receive_message s i pkt k) = s1 \<or>
        snd (receive_message s i pkt k) = snd (handle_dio s1 i pkt k) \<or>
        snd (receive_message s i pkt k) = snd (handle_data_packet s1 i pkt k)"
    using True unfolding receive_message_def Let_def s1_def [symmetric]
    by (auto simp add: handle_ack_def handle_report_def split: prod.splits option.splits)
  then show ?thesis using a b c by auto
qed

lemma energy_ok_send_message_start: "energy_ok s (snd (send_message_start s i k pkt))"
  unfolding send_message_start_snd
  by (rule energy_ok_same_nodes [OF _ energy_ok_consume_energy]) simp

lemma energy_ok_send_message_resume: "energy_ok s (snd (send_message_resume s i k pkt))"
proof -
  define s1 where "s1 = s\<lparr>rng_pos := Suc (rng_pos s)\<rparr>"
  have a: "energy_ok s s1" by (simp add: s1_def energy_ok_def)
  have b: "energy_ok s (snd (receive_message s1 k pkt i))"
    by (rule energy_ok_trans [OF a energy_ok_receive_message])
  have "snd (send_message_resume s i k pkt) = s1 \<or>
        snd (send_message_resume s i k pkt) = snd (receive_message s1 k pkt i)"
    unfolding send_message_resume_def random_random_def s1_def
    by (auto split: prod.splits)
  then show ?thesis using a b by auto
qed

lemma energy_ok_broadcast_dio: "energy_ok s (broadcast_dio s i)"
  by (simp add: energy_ok_def broadcast_dio_frame)

lemma energy_ok_discover_neighbors: "energy_ok s (discover_neighbors s i all_nodes)"
proof (induction all_nodes arbitrary: s)
  case Nil
  then show ?case by simp
next
  case (Cons other rest)
  define s1 where
    "s1 = upd_node s i (\<lambda>n. n\<lparr>neighbors := dict_set_key (neighbors n) other\<rparr>)"
  have "energy_ok s s1"
    unfolding s1_def by (rule energy_ok_upd_node) simp_all
  then have a: "energy_ok s (snd (lia_get s1 i other))"
    by (rule energy_ok_trans [OF _ energy_ok_lia_get])
  have b: "energy_ok s (discover_neighbors (snd (lia_get s1 i other)) i rest)"
    by (rule energy_ok_trans [OF a Cons.IH])
  show ?case
    using b Cons.IH [of s] by (auto simp add: Let_def s1_def)
qed

lemma energy_ok_step: "step s s' \<Longrightarrow> energy_ok s s'"
proof (induction rule: step.induct)
  case (tick s t)
  then show ?case by (simp add: energy_ok_def)
qed (simp_all add: energy_ok_consume_energy energy_ok_lia_update_pfg energy_ok_update_psg
    energy_ok_p_cooperate energy_ok_parent_score energy_ok_select_forwarder
    energy_ok_select_parent energy_ok_irg energy_ok_send_message_start
    energy_ok_send_message_resume energy_ok_receive_message energy_ok_broadcast_dio
    energy_ok_handle_dio energy_ok_handle_data_packet energy_ok_discover_neighbors
    handle_ack_def handle_report_def)

lemma energy_ok_run: "run s s' \<Longrightarrow> energy_ok s s'"
  unfolding run_def
  by (induction rule: rtranclp_induct) (auto intro: energy_ok_trans energy_ok_step)

text \<open>
  Claim C5. Along every run the energy of every node never increases and never becomes
  negative, and an inert node stays inert. \<open>consume_energy\<close> does nothing on an inert
  node; on the call that brings the energy of a live node to zero or below it sets the
  energy to exactly 0, marks the node inert and interrupts the node's process with cause
  \<open>energy_depleted\<close>; otherwise it subtracts the cost.
\<close>

theorem energy_monotone_clamped:
  "(run s s' \<and> 0 \<le> energy (nodes s j) \<longrightarrow>
      energy (nodes s' j) \<le> energy (nodes s j) \<and> 0 \<le> energy (nodes s' j)) \<and>
   (run s s' \<and> \<not> alive (nodes s j) \<longrightarrow> \<not> alive (nodes s' j)) \<and>
   (\<not> alive (nodes s i) \<longrightarrow> consume_energy s i cost_type amount = s) \<and>
   (alive (nodes s i) \<and>
    energy (nodes s i) - (case amount of Some a \<Rightarrow> a | None \<Rightarrow> cost_map_get cost_type) \<le> 0 \<longrightarrow>
      energy (nodes (consume_energy s i cost_type amount) i) = 0 \<and>
      \<not> alive (nodes (consume_energy s i cost_type amount) i) \<and>
      action_interrupts (nodes (consume_energy s i cost_type amount) i)
        = action_interrupts (nodes s i) @ [''energy_depleted'']) \<and>
   (alive (nodes s i) \<and>
    energy (nodes s i) - (case amount of Some a \<Rightarrow> a | None \<Rightarrow> cost_map_get cost_type) > 0 \<longrightarrow>
      energy (nodes (consume_energy s i cost_type amount) i)
        = energy (nodes s i) - (case amount of Some a \<Rightarrow> a | None \<Rightarrow> cost_map_get cost_type) \<and>
      alive (nodes (consume_energy s i cost_type amount) i) \<and>
      action_interrupts (nodes (consume_energy s i cost_type amount) i)
        = action_interrupts (nodes s i))"
proof -
  have r1: "run s s' \<and> 0 \<le> energy (nodes s j) \<longrightarrow>
      energy (nodes s' j) \<le> energy (nodes s j) \<and> 0 \<le> energy (nodes s' j)"
    using energy_ok_run [of s s'] by (simp add: energy_ok_def)
  have r2: "run s s' \<and> \<not> alive (nodes s j) \<longrightarrow> \<not> alive (nodes s' j)"
    using energy_ok_run [of s s'] by (simp add: energy_ok_def)
  show ?thesis
    using r1 r2 consume_energy_dead [of s i cost_type amount]
      consume_energy_depleted [where s = s and i = i and a = amount and ct = cost_type]
      consume_energy_charged [where s = s and i = i and a = amount and ct = cost_type]
    by blast
qed

text \<open>
  Node 1 of \<open>sim_tx\<close> has energy 0.005 and pays 0.01 for a control transmission: it ends
  with energy 0, inert and interrupted. Node 1 of \<open>sim0\<close> has energy 100 and pays 0.001
  for a decision. Node 3 of \<open>sim_dead\<close> is inert: charging it changes nothing, and it is
  still inert after it was sent a message.
\<close>

theorem energy_monotone_clamped_witness:
  "(run sim_tx (consume_energy sim_tx 1 ''tx_ctrl'' None) \<and> 0 \<le> energy (nodes sim_tx 1)) \<and>
   energy (nodes (consume_energy sim_tx 1 ''tx_ctrl'' None) 1) \<le> energy (nodes sim_tx 1) \<and>
   (alive (nodes sim_tx 1) \<and> energy (nodes sim_tx 1) - cost_map_get ''tx_ctrl'' \<le> 0) \<and>
   energy (nodes (consume_energy sim_tx 1 ''tx_ctrl'' None) 1) = 0 \<and>
   \<not> alive (nodes (consume_energy sim_tx 1 ''tx_ctrl'' None) 1) \<and>
   action_interrupts (nodes (consume_energy sim_tx 1 ''tx_ctrl'' None) 1) = [''energy_depleted''] \<and>
   (alive (nodes sim0 1) \<and> energy (nodes sim0 1) - cost_map_get ''sdu'' > 0) \<and>
   energy (nodes (consume_energy sim0 1 ''sdu'' None) 1) = 99.999 \<and>
   (run sim_dead (snd (receive_message sim_dead 3 data_pkt 1)) \<and> \<not> alive (nodes sim_dead 3)) \<and>
   \<not> alive (nodes (snd (receive_message sim_dead 3 data_pkt 1)) 3) \<and>
   consume_energy sim_dead 3 ''idle'' None = sim_dead"
proof -
  have run1: "run sim_tx (consume_energy sim_tx 1 ''tx_ctrl'' None)"
    unfolding run_def by (rule r_into_rtranclp) (rule call_consume_energy)
  have run2: "run sim_dead (snd (receive_message sim_dead 3 data_pkt 1))"
    unfolding run_def by (rule r_into_rtranclp) (rule call_receive_message)
  have v1: "energy (nodes sim_tx 1) = 0.005" "alive (nodes sim_tx 1)"
    "action_interrupts (nodes sim_tx 1) = []"
    by (simp_all add: sim_tx_def sim0_def node0_def)
  have v2: "energy (nodes sim0 1) = 100" "alive (nodes sim0 1)"
    by (simp_all add: sim0_def node0_def)
  have v3: "\<not> alive (nodes sim_dead 3)"
    by (simp add: sim_dead_def)
  have c: "cost_map_get ''tx_ctrl'' = 0.01" "cost_map_get ''sdu'' = 0.001"
    by (simp_all add: cost_map_get_def E_TX_CTRL_def E_SDU_COMPUTE_def)
  have a: "energy (nodes (consume_energy sim_tx 1 ''tx_ctrl'' None) 1) \<le> energy (nodes sim_tx 1)"
    "energy (nodes (consume_energy sim_tx 1 ''tx_ctrl'' None) 1) = 0"
    "\<not> alive (nodes (consume_energy sim_tx 1 ''tx_ctrl'' None) 1)"
    "action_interrupts (nodes (consume_energy sim_tx 1 ''tx_ctrl'' None) 1) = [''energy_depleted'']"
    using energy_monotone_clamped
      [where s = sim_tx and s' = "consume_energy sim_tx 1 ''tx_ctrl'' None" and j = 1 and i = 1
         and cost_type = "''tx_ctrl''" and amount = None]
      run1 v1 c by simp_all
  have b: "energy (nodes (consume_energy sim0 1 ''sdu'' None) 1) = 99.999"
    using energy_monotone_clamped
      [where s = sim0 and s' = sim0 and j = 1 and i = 1 and cost_type = "''sdu''" and amount = None]
      v2 c by simp
  have d: "\<not> alive (nodes (snd (receive_message sim_dead 3 data_pkt 1)) 3)"
    "consume_energy sim_dead 3 ''idle'' None = sim_dead"
    using energy_monotone_clamped
      [where s = sim_dead and s' = "snd (receive_message sim_dead 3 data_pkt 1)" and j = 3
         and i = 3 and cost_type = "''idle''" and amount = None]
      run2 v3 by simp_all
  show ?thesis
    using run1 run2 v1 v2 v3 c a b d by simp
qed

end
